theory Spec2Isabelle
  imports Main "HOL-Library.Word"
begin

unbundle bit_operations_syntax

section \<open>The RGBW driver (leds-rgbw-generic.c): data model\<close>

type_synonym u32 = "32 word"
type_synonym u64 = "64 word"

text \<open>
  Modelled from the spec: the header rgbw.h (enum rgbw_colors, enum rgbw_type, struct
  rgbw_properties, struct rgbw_actions, struct rgbw_device and the RGBW_*_ON and *_PER_NS
  macros) is not among the sources. The driver's comments fix the channel order
  [R,G,B,W] and every loop runs \<open>cntr = COLOR_RED; cntr < MAX_COLORS\<close>, so an array
  of MAX_COLORS entries is a total function on the four colours. The spec's data model
  gives brightness and max_brightness as u32; the driver copies them into C ints, and
  the model keeps the 32 bits and names the signedness at each comparison: a comparison
  between the fields themselves (in the rainbow and the soft-PWM callbacks) is unsigned,
  a comparison of a C int local (\<open>bstate\<close>, \<open>pcolor\<close>, the index of
  \<open>levels\<close>, the pulse counter against \<open>pulse_val_size\<close>) is signed.
\<close>

datatype rgbw_colors = COLOR_RED | COLOR_GREEN | COLOR_BLUE | COLOR_WHITE

definition colors :: "rgbw_colors list" where
  "colors = [COLOR_RED, COLOR_GREEN, COLOR_BLUE, COLOR_WHITE]"

definition MAX_COLORS :: u32 where
  "MAX_COLORS = 4"

text \<open>The element that a C int index selects in an array of MAX_COLORS entries.\<close>

definition color_at :: "u32 \<Rightarrow> rgbw_colors option" where
  "color_at i =
     (if i = 0 then Some COLOR_RED else if i = 1 then Some COLOR_GREEN
      else if i = 2 then Some COLOR_BLUE else if i = 3 then Some COLOR_WHITE else None)"

datatype rgbw_type = RGBW_TYPE_INVALID | RGBW_PWM | RGBW_GPIO

text \<open>
  What C leaves undefined is a value of the model: a division by zero and a read
  outside an array end the run with a fault.
\<close>

datatype array_id = ARR_PROPS | ARR_LEVELS | ARR_PULSE_VAL_TABLE

datatype fault = DIVIDE_BY_ZERO | OUT_OF_BOUNDS array_id

text \<open>The errno values the driver returns (negated, as C ints).\<close>

definition ENODEV :: int where "ENODEV = 19"
definition ENOMEM :: int where "ENOMEM = 12"
definition EINVAL :: int where "EINVAL = 22"
definition ENODATA :: int where "ENODATA = 61"

text \<open>
  A high-resolution timer is inactive, enqueued, or running its callback
  (\<open>hrtimer_active\<close> holds in the last two states, \<open>hrtimer_callback_running\<close>
  in the last).
\<close>

datatype hrtimer = HRTIMER_INACTIVE | HRTIMER_ENQUEUED | HRTIMER_CALLBACK

fun hrtimer_active :: "hrtimer \<Rightarrow> bool" where
  "hrtimer_active HRTIMER_INACTIVE = False"
| "hrtimer_active HRTIMER_ENQUEUED = True"
| "hrtimer_active HRTIMER_CALLBACK = True"

fun hrtimer_callback_running :: "hrtimer \<Rightarrow> bool" where
  "hrtimer_callback_running HRTIMER_CALLBACK = True"
| "hrtimer_callback_running HRTIMER_INACTIVE = False"
| "hrtimer_callback_running HRTIMER_ENQUEUED = False"

datatype hrtimer_restart = HRTIMER_NORESTART | HRTIMER_RESTART

record soft_pwm_device =
  gpio :: u32
  gpio_value :: u32
  pwm_timer :: hrtimer

record pwm_rgbw_data =
  types :: "rgbw_colors \<Rightarrow> rgbw_type"
  soft_pwm :: "rgbw_colors \<Rightarrow> soft_pwm_device"
  period :: u32
  lth_brightness :: u32
  levels :: "u32 list option"
  notify :: "(u32 \<Rightarrow> u32) option"
  notify_after :: bool

record rgbw_properties =
  brightness :: u32
  max_brightness :: u32
  cntr :: u32

record rgbw_actions =
  state :: u32
  bstate :: u32
  pcolor :: u32
  rgbw_values :: "rgbw_colors \<Rightarrow> u32"

record rgbw_device =
  props :: "rgbw_colors \<Rightarrow> rgbw_properties"
  acts :: rgbw_actions
  rgbw_get_data :: pwm_rgbw_data

text \<open>
  The calls into the kernel that leave the driver, in the order they are made. The
  PWM handle \<open>pb->pwm[c]\<close> and the timer \<open>pb->soft_pwm[c].pwm_timer\<close> are named by
  their channel; \<open>Hrtimer_forward\<close> is on the timer whose callback is running.
\<close>

datatype action =
    Pwm_config rgbw_colors u32 u32
  | Pwm_disable rgbw_colors
  | Pwm_enable rgbw_colors
  | Hrtimer_start rgbw_colors u64
  | Hrtimer_forward u64
  | Gpio_set_value u32 u32
  | Notify_after u32

fun action_channel :: "action \<Rightarrow> rgbw_colors option" where
  "action_channel (Pwm_config c d p) = Some c"
| "action_channel (Pwm_disable c) = Some c"
| "action_channel (Pwm_enable c) = Some c"
| "action_channel (Hrtimer_start c t) = Some c"
| "action_channel (Hrtimer_forward t) = None"
| "action_channel (Gpio_set_value g v) = None"
| "action_channel (Notify_after b) = None"

definition channel_actions :: "rgbw_colors \<Rightarrow> action list \<Rightarrow> action list" where
  "channel_actions c as = filter (\<lambda>a. action_channel a = Some c) as"

section \<open>Brightness to duty cycle: pulse\_color\_update and rgbw\_color\_update\<close>

text \<open>\<open>pb->notify ? pb->notify(pb->dev, brightness) : brightness\<close>\<close>

definition notified :: "pwm_rgbw_data \<Rightarrow> u32 \<Rightarrow> u32" where
  "notified pb b = (case notify pb of None \<Rightarrow> b | Some f \<Rightarrow> f b)"

text \<open>\<open>(pb->levels) ? pb->levels[brightness] : brightness\<close>, the index a C int.\<close>

definition level_of :: "pwm_rgbw_data \<Rightarrow> u32 \<Rightarrow> fault + u32" where
  "level_of pb b =
     (case levels pb of
        None \<Rightarrow> Inr b
      | Some ls \<Rightarrow>
          if 0 \<le>s b \<and> unat b < length ls then Inr (ls ! unat b)
          else Inl (OUT_OF_BOUNDS ARR_LEVELS))"

text \<open>
  \<open>pb->lth_brightness + (duty_cycle * (pb->period - pb->lth_brightness) / max)\<close>:
  period and lth_brightness are unsigned int, so the product, the quotient and the sum
  are unsigned 32-bit operations.
\<close>

definition duty_cycle_of :: "pwm_rgbw_data \<Rightarrow> u32 \<Rightarrow> u32 \<Rightarrow> fault + u32" where
  "duty_cycle_of pb b mx =
     (case level_of pb b of
        Inl f \<Rightarrow> Inl f
      | Inr duty_cycle \<Rightarrow>
          if mx = 0 then Inl DIVIDE_BY_ZERO
          else Inr (lth_brightness pb
                    + duty_cycle * (period pb - lth_brightness pb) div mx))"

text \<open>
  The body both update functions run for one channel (lines 121-136 and 164-178 are the
  same text): the hardware PWM is configured, and a soft PWM whose timer is not active
  is started 1000 ns from now.
\<close>

definition pwm_update :: "pwm_rgbw_data \<Rightarrow> rgbw_colors \<Rightarrow> u32 \<Rightarrow> u32 \<Rightarrow> fault + action list" where
  "pwm_update pb c b mx =
     (if types pb c = RGBW_PWM then
        (if b = 0 then Inr [Pwm_config c 0 (period pb), Pwm_disable c]
         else (case duty_cycle_of pb b mx of
                 Inl f \<Rightarrow> Inl f
               | Inr duty_cycle \<Rightarrow> Inr [Pwm_config c duty_cycle (period pb), Pwm_enable c]))
      else Inr [])"

definition gpio_update :: "pwm_rgbw_data \<Rightarrow> rgbw_colors \<Rightarrow> pwm_rgbw_data \<times> action list" where
  "gpio_update pb c =
     (if types pb c = RGBW_GPIO \<and> \<not> hrtimer_active (pwm_timer (soft_pwm pb c))
      then (pb\<lparr>soft_pwm := (soft_pwm pb)(c := (soft_pwm pb c)\<lparr>pwm_timer := HRTIMER_ENQUEUED\<rparr>)\<rparr>,
            [Hrtimer_start c 1000])
      else (pb, []))"

definition channel_update ::
  "pwm_rgbw_data \<Rightarrow> rgbw_colors \<Rightarrow> u32 \<Rightarrow> u32 \<Rightarrow> fault + pwm_rgbw_data \<times> action list" where
  "channel_update pb c b mx =
     (case pwm_update pb c b mx of
        Inl f \<Rightarrow> Inl f
      | Inr as \<Rightarrow> (case gpio_update pb c of (pb', bs) \<Rightarrow> Inr (pb', as @ bs)))"

definition notify_after_actions :: "pwm_rgbw_data \<Rightarrow> u32 list \<Rightarrow> action list" where
  "notify_after_actions pb bs = (if notify_after pb then map Notify_after bs else [])"

text \<open>
  \<open>pulse_color_update\<close>: the C return value, the device and the calls made. The
  range check on \<open>pcolor\<close> is signed and has no lower bound.
\<close>

definition pulse_color_update ::
  "rgbw_device \<Rightarrow> u32 \<Rightarrow> fault + int \<times> rgbw_device \<times> action list" where
  "pulse_color_update rgbw_dev pc =
     (let pb = rgbw_get_data rgbw_dev in
      if MAX_COLORS \<le>s pc then Inr (- EINVAL, rgbw_dev, [])
      else (case color_at pc of
              None \<Rightarrow> Inl (OUT_OF_BOUNDS ARR_PROPS)
            | Some c \<Rightarrow>
                (let b = notified pb (brightness (props rgbw_dev c));
                     mx = max_brightness (props rgbw_dev c)
                 in case channel_update pb c b mx of
                      Inl f \<Rightarrow> Inl f
                    | Inr (pb', as) \<Rightarrow>
                        Inr (0, rgbw_dev\<lparr>rgbw_get_data := pb'\<rparr>,
                             as @ notify_after_actions pb [b]))))"

text \<open>The third loop of \<open>rgbw_color_update\<close>, over the channels in order.\<close>

fun update_loop ::
  "rgbw_device \<Rightarrow> pwm_rgbw_data \<Rightarrow> rgbw_colors list \<Rightarrow> fault + pwm_rgbw_data \<times> action list" where
  "update_loop rgbw_dev pb [] = Inr (pb, [])"
| "update_loop rgbw_dev pb (c # cs) =
     (case channel_update pb c (notified pb (brightness (props rgbw_dev c)))
                                (max_brightness (props rgbw_dev c)) of
        Inl f \<Rightarrow> Inl f
      | Inr (pb', as) \<Rightarrow>
          (case update_loop rgbw_dev pb' cs of
             Inl f \<Rightarrow> Inl f
           | Inr (pb'', bs) \<Rightarrow> Inr (pb'', as @ bs)))"

definition rgbw_color_update :: "rgbw_device \<Rightarrow> fault + int \<times> rgbw_device \<times> action list" where
  "rgbw_color_update rgbw_dev =
     (let pb = rgbw_get_data rgbw_dev in
      case update_loop rgbw_dev pb colors of
        Inl f \<Rightarrow> Inl f
      | Inr (pb', as) \<Rightarrow>
          Inr (0, rgbw_dev\<lparr>rgbw_get_data := pb'\<rparr>,
               as @ notify_after_actions pb
                      (map (\<lambda>c. notified pb (brightness (props rgbw_dev c))) colors)))"

section \<open>The effect timers\<close>

text \<open>
  Modelled from the spec: the macros of rgbw.h that the callbacks use are not among the
  sources, so they are parameters of the model: the four bits of the active-effect
  state and the two tick lengths in nanoseconds.
\<close>

record rgbw_h =
  RGBW_PULSE_ON :: u32
  RGBW_BLINK_ON :: u32
  RGBW_HB_ON :: u32
  RGBW_RB_ON :: u32
  PULSE_VALUE_PER_NS :: u64
  BLINK_STATE_PER_NS :: u64

type_synonym callback_result = "fault + hrtimer_restart \<times> rgbw_device \<times> action list"

definition set_brightness :: "rgbw_colors \<Rightarrow> u32 \<Rightarrow> rgbw_device \<Rightarrow> rgbw_device" where
  "set_brightness c b rgbw_dev =
     rgbw_dev\<lparr>props := (props rgbw_dev)(c := (props rgbw_dev c)\<lparr>brightness := b\<rparr>)\<rparr>"

definition set_bstate :: "u32 \<Rightarrow> rgbw_device \<Rightarrow> rgbw_device" where
  "set_bstate s rgbw_dev = rgbw_dev\<lparr>acts := (acts rgbw_dev)\<lparr>bstate := s\<rparr>\<rparr>"

text \<open>
  \<open>props[c].brightness++\<close> followed by
  \<open>if (props[c].brightness > props[c].max_brightness - 1) acts.bstate = s\<close>.
\<close>

definition rb_increase :: "rgbw_colors \<Rightarrow> u32 \<Rightarrow> rgbw_device \<Rightarrow> rgbw_device" where
  "rb_increase c s rgbw_dev =
     (let d = set_brightness c (brightness (props rgbw_dev c) + 1) rgbw_dev
      in if max_brightness (props d c) - 1 < brightness (props d c) then set_bstate s d else d)"

text \<open>
  \<open>props[c].brightness--\<close> followed by
  \<open>if (props[c].brightness < 1) acts.bstate = s\<close>.
\<close>

definition rb_decrease :: "rgbw_colors \<Rightarrow> u32 \<Rightarrow> rgbw_device \<Rightarrow> rgbw_device" where
  "rb_decrease c s rgbw_dev =
     (let d = set_brightness c (brightness (props rgbw_dev c) - 1) rgbw_dev
      in if brightness (props d c) < 1 then set_bstate s d else d)"

text \<open>The switch of \<open>rgbw_rb_hrtimer_callback\<close> on \<open>acts.bstate\<close>.\<close>

definition rb_switch :: "rgbw_device \<Rightarrow> rgbw_device" where
  "rb_switch rgbw_dev =
     (let s = bstate (acts rgbw_dev) in
      if s = 0 then rb_increase COLOR_GREEN 1 rgbw_dev
      else if s = 1 then rb_decrease COLOR_RED 2 rgbw_dev
      else if s = 2 then rb_increase COLOR_BLUE 3 rgbw_dev
      else if s = 3 then rb_decrease COLOR_GREEN 4 rgbw_dev
      else if s = 4 then rb_increase COLOR_RED 5 rgbw_dev
      else if s = 5 then rb_decrease COLOR_BLUE 0 rgbw_dev
      else set_brightness COLOR_WHITE 0
             (set_brightness COLOR_BLUE 0
               (set_brightness COLOR_GREEN 0
                 (set_brightness COLOR_RED (max_brightness (props rgbw_dev COLOR_RED))
                   (set_bstate 0 rgbw_dev)))))"

text \<open>
  The tail every effect callback shares: push the new brightness to the outputs, forward
  the timer by the tick and ask to be restarted.
\<close>

definition update_and_forward :: "rgbw_device \<Rightarrow> u64 \<Rightarrow> callback_result" where
  "update_and_forward rgbw_dev ns =
     (case rgbw_color_update rgbw_dev of
        Inl f \<Rightarrow> Inl f
      | Inr (r, d, as) \<Rightarrow> Inr (HRTIMER_RESTART, d, as @ [Hrtimer_forward ns]))"

definition rgbw_rb_hrtimer_callback :: "rgbw_h \<Rightarrow> rgbw_device \<Rightarrow> callback_result" where
  "rgbw_rb_hrtimer_callback h g_rgbw_dev =
     (if state (acts g_rgbw_dev) AND RGBW_RB_ON h \<noteq> 0
      then update_and_forward (rb_switch g_rgbw_dev) (PULSE_VALUE_PER_NS h)
      else Inr (HRTIMER_NORESTART, g_rgbw_dev, []))"

text \<open>
  The loop of the heartbeat and blink callbacks: every channel gets 0 or its saved
  value.
\<close>

definition set_all :: "bool \<Rightarrow> rgbw_device \<Rightarrow> rgbw_device" where
  "set_all off rgbw_dev =
     rgbw_dev\<lparr>props := (\<lambda>c. (props rgbw_dev c)
        \<lparr>brightness := (if off then 0 else rgbw_values (acts rgbw_dev) c)\<rparr>)\<rparr>"

text \<open>
  \<open>bstate\<close> is a C int here: \<open>bstate % 2\<close> is non-zero exactly when it is odd, and
  \<open>bstate < 3\<close> is a signed comparison.
\<close>

definition rgbw_hb_hrtimer_callback :: "rgbw_h \<Rightarrow> rgbw_device \<Rightarrow> callback_result" where
  "rgbw_hb_hrtimer_callback h g_rgbw_dev =
     (if state (acts g_rgbw_dev) AND RGBW_HB_ON h \<noteq> 0
      then (let bs = bstate (acts g_rgbw_dev);
                d = set_all (sint bs mod 2 \<noteq> 0) g_rgbw_dev;
                d' = set_bstate (if bs <s 3 then bstate (acts d) + 1 else 0) d
            in update_and_forward d' (if bs <s 3 then 100000000 else 700000000))
      else Inr (HRTIMER_NORESTART, g_rgbw_dev, []))"

definition rgbw_blink_hrtimer_callback :: "rgbw_h \<Rightarrow> rgbw_device \<Rightarrow> callback_result" where
  "rgbw_blink_hrtimer_callback h g_rgbw_dev =
     (if state (acts g_rgbw_dev) AND RGBW_BLINK_ON h \<noteq> 0
      then (let bs = bstate (acts g_rgbw_dev);
                d = set_all (bs = 0) g_rgbw_dev;
                d' = set_bstate (if bs = 0 then 1 else 0) d
            in update_and_forward d' (BLINK_STATE_PER_NS h))
      else Inr (HRTIMER_NORESTART, g_rgbw_dev, []))"

definition pulse_val_table :: "u32 list" where
  "pulse_val_table =
    [0, 1, 2, 3, 4, 6, 8, 10, 13, 16, 20,
     24, 28, 34, 39, 45, 52, 60, 68, 77,
     86, 97, 107, 119, 130, 143, 155, 167,
     180, 192, 203, 214, 224, 233, 240, 246,
     251, 254, 254, 254, 251, 246, 240, 233,
     224, 214, 203, 192, 180, 167, 155, 143,
     130, 119, 107, 97, 86, 77, 68, 60, 52,
     45, 39, 34, 28, 24, 20, 16, 13, 10, 8,
     6, 4, 3, 2, 1, 0, 0, 0, 0]"

text \<open>\<open>int pulse_val_size = ARRAY_SIZE(pulse_val_table)\<close>\<close>

definition pulse_val_size :: u32 where
  "pulse_val_size = of_nat (length pulse_val_table)"

text \<open>
  \<open>if (props[pcolor].cntr >= pulse_val_size) props[pcolor].cntr = 0\<close>: the counter
  is compared with a C int, and the claims speak of its non-negative values, so the
  comparison is modelled signed.
\<close>

definition pulse_index :: "u32 \<Rightarrow> u32" where
  "pulse_index k = (if pulse_val_size \<le>s k then 0 else k)"

definition pulse_val_at :: "u32 \<Rightarrow> fault + u32" where
  "pulse_val_at k =
     (if 0 \<le>s k \<and> unat k < length pulse_val_table then Inr (pulse_val_table ! unat k)
      else Inl (OUT_OF_BOUNDS ARR_PULSE_VAL_TABLE))"

definition rgbw_pulse_hrtimer_callback :: "rgbw_h \<Rightarrow> rgbw_device \<Rightarrow> callback_result" where
  "rgbw_pulse_hrtimer_callback h g_rgbw_dev =
     (if state (acts g_rgbw_dev) AND RGBW_PULSE_ON h \<noteq> 0
      then (let pc = pcolor (acts g_rgbw_dev) in
            case color_at pc of
              None \<Rightarrow> Inl (OUT_OF_BOUNDS ARR_PROPS)
            | Some c \<Rightarrow>
                (let k = pulse_index (cntr (props g_rgbw_dev c)) in
                 case pulse_val_at k of
                   Inl f \<Rightarrow> Inl f
                 | Inr v \<Rightarrow>
                     (let d = g_rgbw_dev\<lparr>props := (props g_rgbw_dev)
                                (c := (props g_rgbw_dev c)\<lparr>brightness := v, cntr := k + 1\<rparr>)\<rparr>
                      in case pulse_color_update d pc of
                           Inl f \<Rightarrow> Inl f
                         | Inr (r, d', as) \<Rightarrow>
                             Inr (HRTIMER_RESTART, d',
                                  as @ [Hrtimer_forward (PULSE_VALUE_PER_NS h)]))))
      else Inr (HRTIMER_NORESTART, g_rgbw_dev, []))"

section \<open>The soft-PWM timer\<close>

text \<open>
  The body of the loop of \<open>rgbw_gpio_hrtimer_callback\<close> for the channel whose timer
  is running its callback: the new pin value and \<open>hrtimer_next_tick\<close>. The product
  \<open>brightness * pb->lth_brightness\<close> is a 32-bit product stored in the u64
  \<open>next_toggle\<close>; \<open>pb->period - next_toggle\<close> is a 64-bit difference.
\<close>

definition gpio_toggle :: "rgbw_device \<Rightarrow> pwm_rgbw_data \<Rightarrow> rgbw_colors \<Rightarrow> u32 \<times> u64" where
  "gpio_toggle rgbw_dev pb c =
     (if max_brightness (props rgbw_dev c) \<le> brightness (props rgbw_dev c) then (1, 0)
      else if brightness (props rgbw_dev c) = 0 then (0, 0)
      else (let v = 1 - gpio_value (soft_pwm pb c);
                next_toggle = (ucast (brightness (props rgbw_dev c) * lth_brightness pb) :: u64)
            in (v, if v \<noteq> 0 then next_toggle else ucast (period pb) - next_toggle)))"

fun gpio_loop ::
  "rgbw_device \<Rightarrow> pwm_rgbw_data \<Rightarrow> rgbw_colors list \<Rightarrow> pwm_rgbw_data \<times> u64 \<times> action list" where
  "gpio_loop rgbw_dev pb [] = (pb, 0, [])"
| "gpio_loop rgbw_dev pb (c # cs) =
     (if types pb c = RGBW_GPIO \<and> hrtimer_callback_running (pwm_timer (soft_pwm pb c))
      then (case gpio_toggle rgbw_dev pb c of
              (v, hrtimer_next_tick) \<Rightarrow>
                (pb\<lparr>soft_pwm := (soft_pwm pb)(c := (soft_pwm pb c)\<lparr>gpio_value := v\<rparr>)\<rparr>,
                 hrtimer_next_tick,
                 [Gpio_set_value (gpio (soft_pwm pb c)) v]))
      else gpio_loop rgbw_dev pb cs)"

text \<open>\<open>ktime_compare(hrtimer_next_tick, ktime_set(0,0)) > 0\<close> compares signed 64-bit values.\<close>

definition rgbw_gpio_hrtimer_callback ::
  "rgbw_device \<Rightarrow> hrtimer_restart \<times> rgbw_device \<times> action list" where
  "rgbw_gpio_hrtimer_callback g_rgbw_dev =
     (case gpio_loop g_rgbw_dev (rgbw_get_data g_rgbw_dev) colors of
        (pb, hrtimer_next_tick, as) \<Rightarrow>
          if 0 <s hrtimer_next_tick
          then (HRTIMER_RESTART, g_rgbw_dev\<lparr>rgbw_get_data := pb\<rparr>,
                as @ [Hrtimer_forward hrtimer_next_tick])
          else (HRTIMER_NORESTART, g_rgbw_dev\<lparr>rgbw_get_data := pb\<rparr>, as))"

text \<open>
  The timer core calls a callback again for as long as it answers
  \<open>HRTIMER_RESTART\<close>: the device and the calls made after each of at most \<open>n\<close>
  firings.
\<close>

fun timer_run ::
  "(rgbw_device \<Rightarrow> callback_result) \<Rightarrow> nat \<Rightarrow> rgbw_device
     \<Rightarrow> fault + (rgbw_device \<times> action list) list" where
  "timer_run cb 0 d = Inr []"
| "timer_run cb (Suc n) d =
     (case cb d of
        Inl f \<Rightarrow> Inl f
      | Inr (HRTIMER_NORESTART, d', as) \<Rightarrow> Inr [(d', as)]
      | Inr (HRTIMER_RESTART, d', as) \<Rightarrow>
          (case timer_run cb n d' of
             Inl f \<Rightarrow> Inl f
           | Inr tr \<Rightarrow> Inr ((d', as) # tr)))"

section \<open>Initialisation: rgbw\_parse\_dt, rgbw\_dt\_validation and rgbw\_dt\_probe\<close>

text \<open>
  What the probe reads from its platform device. A device-tree node is its
  \<open>brightness-levels\<close> property (the u32 cells, when the property exists) and the
  four counts that \<open>of_count_phandle_with_args\<close> and
  \<open>of_property_count_strings\<close> return for pwms, gpios, pwm-names and gpio-names
  (negative when the property is missing). The requests for the PWM and GPIO handles
  (lines 619-726) are calls into the kernel: their outcome is an input, either the value
  of \<open>ret\<close> at \<open>goto err_alloc\<close> or the type of each channel with the period of
  its PWM and the number of its GPIO. Allocations are taken to succeed.
\<close>

record platform_rgbw_data =
  pd_max_brightness :: u32
  pd_levels :: "u32 list option"
  pd_init :: "int option"
  pd_notify :: "(u32 \<Rightarrow> u32) option"
  pd_notify_after :: bool

record device_node =
  brightness_levels :: "u32 list option"
  pwms :: int
  gpios :: int
  pwm_names :: int
  gpio_names :: int

record resolved_channels =
  rc_types :: "rgbw_colors \<Rightarrow> rgbw_type"
  rc_pwm_period :: "rgbw_colors \<Rightarrow> u32"
  rc_gpio :: "rgbw_colors \<Rightarrow> u32"

record platform_device =
  platform_data :: "platform_rgbw_data option"
  of_node :: "device_node option"
  channel_requests :: "int + resolved_channels"
  INVALID_COLOR :: u32

text \<open>
  \<open>rgbw_parse_dt\<close>: a missing node is -ENODEV, a missing property -EINVAL; a
  property of n > 0 cells gives the table and max_brightness = n - 1, an empty one
  gives no table and max_brightness = 0.
\<close>

definition rgbw_parse_dt :: "device_node option \<Rightarrow> int + platform_rgbw_data" where
  "rgbw_parse_dt node =
     (case node of
        None \<Rightarrow> Inl (- ENODEV)
      | Some n \<Rightarrow>
          (case brightness_levels n of
             None \<Rightarrow> Inl (- EINVAL)
           | Some cells \<Rightarrow>
               (let mb = (of_nat (length cells) :: u32) in
                if 0 < mb
                then Inr \<lparr>pd_max_brightness = mb - 1, pd_levels = Some cells, pd_init = None,
                          pd_notify = None, pd_notify_after = False\<rparr>
                else Inr \<lparr>pd_max_brightness = 0, pd_levels = None, pd_init = None,
                          pd_notify = None, pd_notify_after = False\<rparr>)))"

text \<open>
  \<open>rgbw_dt_validation\<close>. Both tests in its loop over the names end in a semicolon,
  so every iteration continues and the loop decides nothing.
\<close>

definition count_of :: "device_node option \<Rightarrow> (device_node \<Rightarrow> int) \<Rightarrow> int" where
  "count_of node f = (case node of None \<Rightarrow> - EINVAL | Some n \<Rightarrow> f n)"

definition rgbw_dt_validation :: "device_node option \<Rightarrow> int" where
  "rgbw_dt_validation node =
     (let num_def_colors = (if 0 < count_of node pwms then count_of node pwms else 0)
                         + (if 0 < count_of node gpios then count_of node gpios else 0);
          num_def_names = (if 0 < count_of node pwm_names then count_of node pwm_names else 0)
                        + (if 0 < count_of node gpio_names then count_of node gpio_names else 0)
      in if num_def_colors < 3 then - ENODATA
         else if 4 < num_def_colors then - EINVAL
         else if 0 < num_def_names
              then (if num_def_names \<noteq> num_def_colors then - ENODATA else num_def_colors)
              else 0)"

text \<open>
  The loop that picks the period: the period of the first hardware PWM in channel
  order, 7650000 ns when there is none.
\<close>

fun pick_period :: "resolved_channels \<Rightarrow> rgbw_colors list \<Rightarrow> u32 \<Rightarrow> u32" where
  "pick_period rc [] p = p"
| "pick_period rc (c # cs) p =
     (if rc_types rc c = RGBW_PWM then rc_pwm_period rc c else pick_period rc cs 7650000)"

text \<open>
  \<open>max = data->levels ? data->levels[data->max_brightness] : data->max_brightness\<close>
\<close>

definition probe_max :: "platform_rgbw_data \<Rightarrow> fault + u32" where
  "probe_max data =
     (case pd_levels data of
        None \<Rightarrow> Inr (pd_max_brightness data)
      | Some ls \<Rightarrow>
          if unat (pd_max_brightness data) < length ls
          then Inr (ls ! unat (pd_max_brightness data))
          else Inl (OUT_OF_BOUNDS ARR_LEVELS))"

text \<open>
  \<open>rgbw_dt_probe\<close> up to the device it registers: the C return value and, when it
  is 0, the device. The only places where the probe gives up are the ones below; the
  division \<open>pb->lth_brightness = pb->period / max\<close> has no test before it.
\<close>

definition build_device ::
  "platform_device \<Rightarrow> platform_rgbw_data \<Rightarrow> resolved_channels \<Rightarrow> u32 \<Rightarrow> u32 \<Rightarrow> rgbw_device" where
  "build_device pdev data rc p lth =
     \<lparr>props = (\<lambda>c. \<lparr>brightness = 0, max_brightness = pd_max_brightness data, cntr = 0\<rparr>),
      acts = \<lparr>state = 0, bstate = INVALID_COLOR pdev, pcolor = INVALID_COLOR pdev,
              rgbw_values = (\<lambda>c. 0)\<rparr>,
      rgbw_get_data =
        \<lparr>types = rc_types rc,
         soft_pwm = (\<lambda>c. \<lparr>gpio = rc_gpio rc c, gpio_value = 0, pwm_timer = HRTIMER_INACTIVE\<rparr>),
         period = p, lth_brightness = lth, levels = pd_levels data,
         notify = pd_notify data, notify_after = pd_notify_after data\<rparr>\<rparr>"

definition rgbw_dt_probe :: "platform_device \<Rightarrow> fault + int \<times> rgbw_device option" where
  "rgbw_dt_probe pdev =
     (case (case platform_data pdev of
              None \<Rightarrow> rgbw_parse_dt (of_node pdev)
            | Some d \<Rightarrow> Inr d) of
        Inl ret \<Rightarrow> Inr (ret, None)
      | Inr data \<Rightarrow>
          (let ret = rgbw_dt_validation (of_node pdev);
               init_ret = (case pd_init data of None \<Rightarrow> 0 | Some r \<Rightarrow> r)
           in
           if ret < 0 then Inr (ret, None)
           else if init_ret < 0 then Inr (init_ret, None)
           else (case probe_max data of
                   Inl f \<Rightarrow> Inl f
                 | Inr mx \<Rightarrow>
                     (case channel_requests pdev of
                        Inl r \<Rightarrow> Inr (r, None)
                      | Inr rc \<Rightarrow>
                          (let p = pick_period rc colors 0 in
                           if mx = 0 then Inl DIVIDE_BY_ZERO
                           else Inr (0, Some (build_device pdev data rc p (p div mx))))))))"

section \<open>Notions used in the statements\<close>

text \<open>
  The duty cycle as the specification writes it:
  \<open>raw = levels ? levels[brightness] : brightness\<close> and
  \<open>duty_ns = lth_brightness_ns + raw * (period_ns - lth_brightness_ns) / max_brightness\<close>,
  a formula over the integers.
\<close>

definition spec_raw :: "u32 list option \<Rightarrow> u32 \<Rightarrow> u32" where
  "spec_raw ls b = (case ls of None \<Rightarrow> b | Some l \<Rightarrow> l ! unat b)"

definition spec_duty_ns :: "int \<Rightarrow> int \<Rightarrow> int \<Rightarrow> int \<Rightarrow> int" where
  "spec_duty_ns lth raw period_ns max_b = lth + raw * (period_ns - lth) div max_b"

text \<open>
  The expression of lines 128-129 and 171-172 as a C \<open>unsigned int\<close> computes it:
  the difference, the product, the quotient and the sum are each taken modulo 2^32.
\<close>

definition duty_ns_u32 :: "u32 \<Rightarrow> u32 \<Rightarrow> u32 \<Rightarrow> u32 \<Rightarrow> u32" where
  "duty_ns_u32 lth raw period_ns max_b = lth + raw * (period_ns - lth) div max_b"

text \<open>
  No operation of the expression wraps: the difference is not negative, and the product
  and the result are below 2^32.
\<close>

definition duty_fits :: "u32 \<Rightarrow> u32 \<Rightarrow> u32 \<Rightarrow> u32 \<Rightarrow> bool" where
  "duty_fits lth raw period_ns max_b =
     (lth \<le> period_ns \<and> uint raw * (uint period_ns - uint lth) < 2 ^ 32 \<and>
      spec_duty_ns (uint lth) (uint raw) (uint period_ns) (uint max_b) < 2 ^ 32)"

text \<open>The writes to GPIO pins among the calls made.\<close>

fun is_gpio_write :: "action \<Rightarrow> bool" where
  "is_gpio_write (Gpio_set_value g v) = True"
| "is_gpio_write a = False"

definition gpio_writes :: "action list \<Rightarrow> action list" where
  "gpio_writes as = filter is_gpio_write as"

text \<open>
  An update of channel \<open>c\<close> is defined when it reads inside the table and does not
  divide by zero: only a hardware PWM with a non-zero brightness does either.
\<close>

definition update_defined :: "rgbw_device \<Rightarrow> rgbw_colors \<Rightarrow> bool" where
  "update_defined d c =
     (let pb = rgbw_get_data d; b = notified pb (brightness (props d c)) in
      types pb c \<noteq> RGBW_PWM \<or> b = 0 \<or>
      (max_brightness (props d c) \<noteq> 0 \<and>
       (case levels pb of None \<Rightarrow> True | Some ls \<Rightarrow> 0 \<le>s b \<and> unat b < length ls)))"

text \<open>Two states of the driver data with the same configuration (all but the soft PWMs).\<close>

definition same_config :: "pwm_rgbw_data \<Rightarrow> pwm_rgbw_data \<Rightarrow> bool" where
  "same_config pb pb' =
     (types pb' = types pb \<and> period pb' = period pb \<and> lth_brightness pb' = lth_brightness pb \<and>
      levels pb' = levels pb \<and> notify pb' = notify pb \<and> notify_after pb' = notify_after pb)"

text \<open>
  Two devices with the same set-up: the same configuration, maxima, active effects,
  pulsed channel and saved colour.
\<close>

definition same_setup :: "rgbw_device \<Rightarrow> rgbw_device \<Rightarrow> bool" where
  "same_setup d d' =
     (same_config (rgbw_get_data d) (rgbw_get_data d') \<and>
      (\<forall>c. max_brightness (props d' c) = max_brightness (props d c)) \<and>
      state (acts d') = state (acts d) \<and> pcolor (acts d') = pcolor (acts d) \<and>
      rgbw_values (acts d') = rgbw_values (acts d))"

text \<open>The brightness of the four channels, in the order [R,G,B,W].\<close>

definition channels_brightness :: "rgbw_device \<Rightarrow> u32 list" where
  "channels_brightness d = map (\<lambda>c. brightness (props d c)) colors"

text \<open>The invariant of the data model: no channel is brighter than its maximum.\<close>

definition brightness_bounded :: "rgbw_device \<Rightarrow> bool" where
  "brightness_bounded d = (\<forall>c. brightness (props d c) \<le> max_brightness (props d c))"

text \<open>
  A board for the examples: red, green and blue on hardware PWMs, white on GPIO 7, no
  table, 255 levels, the default period of 7650000 ns and so 30000 ns per level.
\<close>

definition board :: rgbw_device where
  "board =
     \<lparr>props = (\<lambda>c. \<lparr>brightness = 0, max_brightness = 255, cntr = 0\<rparr>),
      acts = \<lparr>state = 0, bstate = 0, pcolor = 0, rgbw_values = (\<lambda>c. 0)\<rparr>,
      rgbw_get_data =
        \<lparr>types = (\<lambda>c. if c = COLOR_WHITE then RGBW_GPIO else RGBW_PWM),
         soft_pwm = (\<lambda>c. \<lparr>gpio = 7, gpio_value = 0, pwm_timer = HRTIMER_INACTIVE\<rparr>),
         period = 7650000, lth_brightness = 30000, levels = None,
         notify = None, notify_after = False\<rparr>\<rparr>"

text \<open>
  Values of the header's macros for the examples: four distinct bits and ticks of 50 ms
  and 500 ms. The theorems hold for every choice of them.
\<close>

definition rgbw_h0 :: rgbw_h where
  "rgbw_h0 = \<lparr>RGBW_PULSE_ON = 1, RGBW_BLINK_ON = 2, RGBW_HB_ON = 4, RGBW_RB_ON = 8,
              PULSE_VALUE_PER_NS = 50000000, BLINK_STATE_PER_NS = 500000000\<rparr>"

text \<open>The device with the given active-effect state.\<close>

definition set_state :: "u32 \<Rightarrow> rgbw_device \<Rightarrow> rgbw_device" where
  "set_state s d = d\<lparr>acts := (acts d)\<lparr>state := s\<rparr>\<rparr>"

text \<open>The calls an all-channel update makes (none when it faults).\<close>

definition update_actions :: "rgbw_device \<Rightarrow> action list" where
  "update_actions d = (case rgbw_color_update d of Inl f \<Rightarrow> [] | Inr (r, d', as) \<Rightarrow> as)"

text \<open>
  The same board on PWMs of 50000000 ns (20 Hz), 196078 ns per level, with red at full
  brightness; and on PWMs of 100 ns, where a level is 0 ns, with red at brightness 1.
\<close>

definition board_20hz :: rgbw_device where
  "board_20hz =
     set_brightness COLOR_RED 255
       (board\<lparr>rgbw_get_data := (rgbw_get_data board)\<lparr>period := 50000000, lth_brightness := 196078\<rparr>\<rparr>)"


text \<open>
  The soft-PWM rule in the specification's words: the pulse width
  \<open>pulse_ns = brightness * lth_brightness_ns\<close>, the delay until the next toggle
  (the pulse width when the pin is now high, the rest of the period when it is now
  low), and the device with the pin of a channel driven to a value.
\<close>

definition pulse_ns :: "rgbw_device \<Rightarrow> rgbw_colors \<Rightarrow> u64" where
  "pulse_ns d c = ucast (brightness (props d c) * lth_brightness (rgbw_get_data d))"

definition toggle_delay :: "rgbw_device \<Rightarrow> rgbw_colors \<Rightarrow> u32 \<Rightarrow> u64" where
  "toggle_delay d c v =
     (if v \<noteq> 0 then pulse_ns d c else ucast (period (rgbw_get_data d)) - pulse_ns d c)"

definition drive :: "rgbw_colors \<Rightarrow> u32 \<Rightarrow> rgbw_device \<Rightarrow> rgbw_device" where
  "drive c v d =
     d\<lparr>rgbw_get_data := (rgbw_get_data d)
         \<lparr>soft_pwm := (soft_pwm (rgbw_get_data d))
            (c := (soft_pwm (rgbw_get_data d) c)\<lparr>gpio_value := v\<rparr>)\<rparr>\<rparr>"

text \<open>The timer of a soft PWM is running its callback.\<close>

definition firing :: "rgbw_colors \<Rightarrow> rgbw_device \<Rightarrow> rgbw_device" where
  "firing c d =
     d\<lparr>rgbw_get_data := (rgbw_get_data d)
         \<lparr>soft_pwm := (soft_pwm (rgbw_get_data d))
            (c := (soft_pwm (rgbw_get_data d) c)\<lparr>pwm_timer := HRTIMER_CALLBACK\<rparr>)\<rparr>\<rparr>"

text \<open>
  A board with a table of six levels up to 100000 on PWMs of 50000 ns: the probe's
  \<open>period / max\<close> is 0 ns per level. White is at brightness 1 of 5 and its timer fires.
\<close>

definition board_coarse :: rgbw_device where
  "board_coarse =
     firing COLOR_WHITE
       \<lparr>props = (\<lambda>c. \<lparr>brightness = (if c = COLOR_WHITE then 1 else 0), max_brightness = 5,
                       cntr = 0\<rparr>),
        acts = \<lparr>state = 0, bstate = 0, pcolor = 0, rgbw_values = (\<lambda>c. 0)\<rparr>,
        rgbw_get_data =
          \<lparr>types = (\<lambda>c. if c = COLOR_WHITE then RGBW_GPIO else RGBW_PWM),
           soft_pwm = (\<lambda>c. \<lparr>gpio = 7, gpio_value = 0, pwm_timer = HRTIMER_INACTIVE\<rparr>),
           period = 50000, lth_brightness = 0,
           levels = Some [0, 20000, 40000, 60000, 80000, 100000],
           notify = None, notify_after = False\<rparr>\<rparr>"

text \<open>
  A platform device without platform data whose node has three PWMs and one GPIO, no
  names, and the given \<open>brightness-levels\<close> cells; every handle is granted, the PWMs
  run at 5000000 ns.
\<close>

definition pdev_with_levels :: "u32 list \<Rightarrow> platform_device" where
  "pdev_with_levels cells =
     \<lparr>platform_data = None,
      of_node = Some \<lparr>brightness_levels = Some cells, pwms = 3, gpios = 1,
                      pwm_names = - EINVAL, gpio_names = - EINVAL\<rparr>,
      channel_requests =
        Inr \<lparr>rc_types = (\<lambda>c. if c = COLOR_WHITE then RGBW_GPIO else RGBW_PWM),
             rc_pwm_period = (\<lambda>c. 5000000), rc_gpio = (\<lambda>c. 7)\<rparr>,
      INVALID_COLOR = 5\<rparr>"

text \<open>The max_brightness of a channel of the device a probe returns, if it returns one.\<close>

definition probed_max_brightness :: "platform_device \<Rightarrow> rgbw_colors \<Rightarrow> u32 option" where
  "probed_max_brightness pdev c =
     (case rgbw_dt_probe pdev of
        Inl f \<Rightarrow> None
      | Inr (ret, None) \<Rightarrow> None
      | Inr (ret, Some d) \<Rightarrow> Some (max_brightness (props d c)))"

text \<open>The value a probe returns, when it returns.\<close>

definition probe_return :: "platform_device \<Rightarrow> int option" where
  "probe_return pdev = (case rgbw_dt_probe pdev of Inl f \<Rightarrow> None | Inr (ret, d) \<Rightarrow> Some ret)"

text \<open>The board with the heartbeat active at step 0 and the saved colour [200,0,0,0].\<close>

definition board_hb :: rgbw_device where
  "board_hb =
     board\<lparr>acts := \<lparr>state = 4, bstate = 0, pcolor = 0,
                      rgbw_values = (\<lambda>c. if c = COLOR_RED then 200 else 0)\<rparr>\<rparr>"

text \<open>The devices after each firing of a run (none when a firing faults).\<close>

definition run_states ::
  "(rgbw_device \<Rightarrow> callback_result) \<Rightarrow> nat \<Rightarrow> rgbw_device \<Rightarrow> rgbw_device list" where
  "run_states cb n d = (case timer_run cb n d of Inl f \<Rightarrow> [] | Inr tr \<Rightarrow> map fst tr)"

text \<open>The board with the rainbow active in state 0, red at 255, green and blue at 0.\<close>

definition board_rb :: rgbw_device where
  "board_rb =
     set_brightness COLOR_RED 255
       (board\<lparr>acts := \<lparr>state = 8, bstate = 0, pcolor = 0, rgbw_values = (\<lambda>c. 0)\<rparr>\<rparr>)"

text \<open>
  The device a firing of a run starts from: the initial device for the first firing, the
  device the firing before it left for the others.
\<close>

definition tick_start ::
  "rgbw_device \<Rightarrow> (rgbw_device \<times> action list) list \<Rightarrow> nat \<Rightarrow> rgbw_device" where
  "tick_start d tr i = (if i = 0 then d else fst (tr ! (i - 1)))"

text \<open>
  The board with every channel at brightness 0 while the soft PWM of white is in the
  middle of a pulse: its pin is high and its timer is enqueued.
\<close>

definition board_white_high :: rgbw_device where
  "board_white_high =
     board\<lparr>rgbw_get_data := (rgbw_get_data board)
       \<lparr>soft_pwm := (\<lambda>c. \<lparr>gpio = 7, gpio_value = (if c = COLOR_WHITE then 1 else 0),
                            pwm_timer = (if c = COLOR_WHITE then HRTIMER_ENQUEUED
                                         else HRTIMER_INACTIVE)\<rparr>)\<rparr>\<rparr>"

text \<open>
  The board, every channel at brightness 0, with a \<open>notify\<close> hook from the platform
  data that answers 1 for every brightness.
\<close>

definition board_hooked :: rgbw_device where
  "board_hooked = board\<lparr>rgbw_get_data := (rgbw_get_data board)\<lparr>notify := Some (\<lambda>b. 1)\<rparr>\<rparr>"

text \<open>
  The device the probe registers for \<open>brightness-levels = <0 128 255>\<close>: a table of
  three levels, so max_brightness 2 on every channel, and 5000000 / 255 = 19607 ns per
  level.
\<close>

definition board_3levels :: rgbw_device where
  "board_3levels =
     \<lparr>props = (\<lambda>c. \<lparr>brightness = 0, max_brightness = 2, cntr = 0\<rparr>),
      acts = \<lparr>state = 0, bstate = 5, pcolor = 5, rgbw_values = (\<lambda>c. 0)\<rparr>,
      rgbw_get_data =
        \<lparr>types = (\<lambda>c. if c = COLOR_WHITE then RGBW_GPIO else RGBW_PWM),
         soft_pwm = (\<lambda>c. \<lparr>gpio = 7, gpio_value = 0, pwm_timer = HRTIMER_INACTIVE\<rparr>),
         period = 5000000, lth_brightness = 19607, levels = Some [0, 128, 255],
         notify = None, notify_after = False\<rparr>\<rparr>"

text \<open>The device with the given pulsed channel.\<close>

definition set_pcolor :: "u32 \<Rightarrow> rgbw_device \<Rightarrow> rgbw_device" where
  "set_pcolor pc d = d\<lparr>acts := (acts d)\<lparr>pcolor := pc\<rparr>\<rparr>"

section \<open>Properties of the update functions\<close>

subsection \<open>The update loop, channel by channel\<close>

lemma same_config_refl [simp]: "same_config pb pb"
  by (simp add: same_config_def)

lemma same_config_trans: "same_config a b \<Longrightarrow> same_config b c \<Longrightarrow> same_config a c"
  by (simp add: same_config_def)

lemma gpio_update_config: "same_config pb (fst (gpio_update pb c))"
  by (simp add: gpio_update_def same_config_def)

lemma gpio_update_other: "c' \<noteq> c \<Longrightarrow> soft_pwm (fst (gpio_update pb c)) c' = soft_pwm pb c'"
  by (simp add: gpio_update_def)

lemma gpio_update_actions: "channel_actions c' (snd (gpio_update pb c)) = (if c' = c then snd (gpio_update pb c) else [])"
  by (simp add: gpio_update_def channel_actions_def)

lemma pwm_update_actions:
  "pwm_update pb c b mx = Inr as \<Longrightarrow> channel_actions c' as = (if c' = c then as else [])"
  by (auto simp: pwm_update_def channel_actions_def split: if_splits sum.splits)

lemma pwm_update_cong:
  "same_config pb pb' \<Longrightarrow> pwm_update pb' c b mx = pwm_update pb c b mx"
proof -
  assume a: "same_config pb pb'"
  then have "level_of pb' b = level_of pb b"
    by (simp add: level_of_def same_config_def)
  with a have "duty_cycle_of pb' b mx = duty_cycle_of pb b mx"
    by (simp add: duty_cycle_of_def same_config_def split: sum.splits)
  with a show ?thesis
    by (simp add: pwm_update_def same_config_def split: sum.splits)
qed

lemma notified_cong: "same_config pb pb' \<Longrightarrow> notified pb' b = notified pb b"
  by (simp add: notified_def same_config_def)

lemma gpio_update_cong:
  "same_config pb pb' \<Longrightarrow> soft_pwm pb' c = soft_pwm pb c \<Longrightarrow>
     snd (gpio_update pb' c) = snd (gpio_update pb c)"
  by (simp add: gpio_update_def same_config_def)

lemma channel_update_Inr:
  "channel_update pb c b mx = Inr (pb', as) \<longleftrightarrow>
     (\<exists>ps. pwm_update pb c b mx = Inr ps \<and> pb' = fst (gpio_update pb c) \<and> as = ps @ snd (gpio_update pb c))"
  by (auto simp: channel_update_def split: sum.splits prod.splits)

lemma update_loop_config:
  "update_loop d pb cs = Inr (pb', as) \<Longrightarrow> same_config pb pb'"
proof (induction cs arbitrary: pb pb' as)
  case Nil
  then show ?case by simp
next
  case (Cons x xs)
  then show ?case
    by (auto simp: channel_update_Inr split: sum.splits prod.splits
        intro: same_config_trans [OF gpio_update_config])
qed

lemma update_loop_other:
  "update_loop d pb cs = Inr (pb', as) \<Longrightarrow> c \<notin> set cs \<Longrightarrow>
     soft_pwm pb' c = soft_pwm pb c \<and> channel_actions c as = []"
proof (induction cs arbitrary: pb pb' as)
  case Nil
  then show ?case by (simp add: channel_actions_def)
next
  case (Cons x xs)
  from Cons.prems obtain pb1 a1 bs ps where
    p: "pwm_update pb x (notified pb (brightness (props d x))) (max_brightness (props d x)) = Inr ps"
    and pb1: "pb1 = fst (gpio_update pb x)" and a1: "a1 = ps @ snd (gpio_update pb x)"
    and r: "update_loop d pb1 xs = Inr (pb', bs)" and as: "as = a1 @ bs"
    by (auto simp: channel_update_Inr split: sum.splits prod.splits)
  from Cons.prems have ne: "c \<noteq> x" and nin: "c \<notin> set xs" by auto
  from Cons.IH [OF r nin] have "soft_pwm pb' c = soft_pwm pb1 c" and e: "channel_actions c bs = []"
    by simp_all
  moreover have "soft_pwm pb1 c = soft_pwm pb c"
    using ne by (simp add: pb1 gpio_update_other)
  moreover have "channel_actions c a1 = []"
    using ne pwm_update_actions [OF p, of c] gpio_update_actions [of c pb x]
    by (simp add: a1 channel_actions_def)
  ultimately show ?case
    by (simp add: as channel_actions_def)
qed

lemma update_loop_channel:
  "update_loop d pb cs = Inr (pb', as) \<Longrightarrow> distinct cs \<Longrightarrow> c \<in> set cs \<Longrightarrow>
     (\<exists>ps. pwm_update pb c (notified pb (brightness (props d c))) (max_brightness (props d c)) = Inr ps
        \<and> channel_actions c as = ps @ snd (gpio_update pb c)
        \<and> soft_pwm pb' c = soft_pwm (fst (gpio_update pb c)) c)"
proof (induction cs arbitrary: pb pb' as)
  case Nil
  then show ?case by simp
next
  case (Cons x xs)
  from Cons.prems(1) obtain pb1 a1 bs ps where
    p: "pwm_update pb x (notified pb (brightness (props d x))) (max_brightness (props d x)) = Inr ps"
    and pb1: "pb1 = fst (gpio_update pb x)" and a1: "a1 = ps @ snd (gpio_update pb x)"
    and r: "update_loop d pb1 xs = Inr (pb', bs)" and as: "as = a1 @ bs"
    by (auto simp: channel_update_Inr split: sum.splits prod.splits)
  have cfg: "same_config pb pb1"
    by (simp add: pb1 gpio_update_config)
  show ?case
  proof (cases "c = x")
    case True
    with Cons.prems(2) have nin: "c \<notin> set xs" by simp
    from update_loop_other [OF r nin] have "soft_pwm pb' c = soft_pwm pb1 c" "channel_actions c bs = []"
      by simp_all
    moreover have "channel_actions c a1 = a1"
      using True pwm_update_actions [OF p, of c] gpio_update_actions [of c pb x]
      by (simp add: a1 channel_actions_def)
    ultimately show ?thesis
      using p True by (simp add: as a1 pb1 channel_actions_def)
  next
    case False
    with Cons.prems have dis: "distinct xs" and mem: "c \<in> set xs" by simp_all
    from Cons.IH [OF r dis mem] obtain qs where
      q: "pwm_update pb1 c (notified pb1 (brightness (props d c))) (max_brightness (props d c)) = Inr qs"
      and ca: "channel_actions c bs = qs @ snd (gpio_update pb1 c)"
      and sp: "soft_pwm pb' c = soft_pwm (fst (gpio_update pb1 c)) c"
      by blast
    have same: "soft_pwm pb1 c = soft_pwm pb c"
      using False by (simp add: pb1 gpio_update_other)
    have "channel_actions c a1 = []"
      using False pwm_update_actions [OF p, of c] gpio_update_actions [of c pb x]
      by (simp add: a1 channel_actions_def)
    moreover have "pwm_update pb c (notified pb (brightness (props d c))) (max_brightness (props d c)) = Inr qs"
      using q by (simp add: pwm_update_cong [OF cfg] notified_cong [OF cfg])
    moreover have "snd (gpio_update pb1 c) = snd (gpio_update pb c)"
      by (rule gpio_update_cong [OF cfg same])
    moreover have "soft_pwm (fst (gpio_update pb1 c)) c = soft_pwm (fst (gpio_update pb c)) c"
      using cfg same by (simp add: gpio_update_def same_config_def)
    ultimately show ?thesis
      using ca sp by (simp add: as channel_actions_def)
  qed
qed


subsection \<open>The two update functions\<close>

lemma distinct_colors: "distinct colors"
  by (simp add: colors_def)

lemma set_colors: "c \<in> set colors"
  by (cases c) (simp_all add: colors_def)

lemma pwm_update_defined:
  "update_defined d c \<Longrightarrow>
     \<exists>ps. pwm_update (rgbw_get_data d) c (notified (rgbw_get_data d) (brightness (props d c)))
            (max_brightness (props d c)) = Inr ps"
  by (auto simp: update_defined_def pwm_update_def duty_cycle_of_def level_of_def Let_def
      split: option.splits)

lemma update_loop_defined:
  "\<forall>c\<in>set cs. update_defined d c \<Longrightarrow> same_config (rgbw_get_data d) pb \<Longrightarrow>
     \<exists>pb' as. update_loop d pb cs = Inr (pb', as)"
proof (induction cs arbitrary: pb)
  case Nil
  then show ?case by simp
next
  case (Cons x xs)
  from Cons.prems obtain ps where
    "pwm_update (rgbw_get_data d) x (notified (rgbw_get_data d) (brightness (props d x)))
            (max_brightness (props d x)) = Inr ps"
    using pwm_update_defined [of d x] by auto
  with Cons.prems(2) have p: "pwm_update pb x (notified pb (brightness (props d x)))
            (max_brightness (props d x)) = Inr ps"
    by (simp add: pwm_update_cong notified_cong)
  have "same_config (rgbw_get_data d) (fst (gpio_update pb x))"
    using Cons.prems(2) gpio_update_config [of pb x] by (rule same_config_trans)
  with Cons.IH [of "fst (gpio_update pb x)"] Cons.prems(1)
  obtain pb' bs where "update_loop d (fst (gpio_update pb x)) xs = Inr (pb', bs)"
    by auto
  with p show ?case
    by (cases "gpio_update pb x") (simp add: channel_update_def)
qed

lemma rgbw_color_update_Inr:
  "rgbw_color_update d = Inr (r, d', as) \<Longrightarrow>
     r = 0 \<and> props d' = props d \<and> acts d' = acts d \<and>
     same_config (rgbw_get_data d) (rgbw_get_data d')"
  by (auto simp: rgbw_color_update_def Let_def split: sum.splits prod.splits
      dest: update_loop_config)

lemma rgbw_color_update_defined:
  "\<forall>c. update_defined d c \<Longrightarrow> \<exists>d' as. rgbw_color_update d = Inr (0, d', as)"
  using update_loop_defined [of colors d "rgbw_get_data d"]
  by (auto simp: rgbw_color_update_def Let_def)

lemma channel_actions_append:
  "channel_actions c (as @ bs) = channel_actions c as @ channel_actions c bs"
  by (simp add: channel_actions_def)

lemma channel_actions_notify_after [simp]:
  "channel_actions c (notify_after_actions pb bs) = []"
  by (simp add: notify_after_actions_def channel_actions_def)

lemma rgbw_color_update_channel:
  assumes "rgbw_color_update d = Inr (r, d', as)"
  shows "\<exists>ps. pwm_update (rgbw_get_data d) c (notified (rgbw_get_data d) (brightness (props d c)))
                 (max_brightness (props d c)) = Inr ps
        \<and> channel_actions c as = ps @ snd (gpio_update (rgbw_get_data d) c)
        \<and> soft_pwm (rgbw_get_data d') c = soft_pwm (fst (gpio_update (rgbw_get_data d) c)) c"
proof -
  from assms obtain pb' bs where
    l: "update_loop d (rgbw_get_data d) colors = Inr (pb', bs)"
    and d': "d' = d\<lparr>rgbw_get_data := pb'\<rparr>"
    and as: "as = bs @ notify_after_actions (rgbw_get_data d)
                      (map (\<lambda>c. notified (rgbw_get_data d) (brightness (props d c))) colors)"
    by (auto simp: rgbw_color_update_def Let_def split: sum.splits prod.splits)
  from update_loop_channel [OF l distinct_colors set_colors, of c]
  show ?thesis
    by (simp add: d' as channel_actions_append)
qed

lemma pulse_color_update_channel:
  assumes "color_at pc = Some c"
  shows "pulse_color_update d pc =
     (case pwm_update (rgbw_get_data d) c (notified (rgbw_get_data d) (brightness (props d c)))
                 (max_brightness (props d c)) of
        Inl f \<Rightarrow> Inl f
      | Inr ps \<Rightarrow> Inr (0, d\<lparr>rgbw_get_data := fst (gpio_update (rgbw_get_data d) c)\<rparr>,
                   ps @ snd (gpio_update (rgbw_get_data d) c)
                   @ notify_after_actions (rgbw_get_data d)
                       [notified (rgbw_get_data d) (brightness (props d c))]))"
proof -
  from assms have "\<not> MAX_COLORS \<le>s pc"
    by (auto simp: color_at_def MAX_COLORS_def word_sle_eq split: if_splits)
  with assms show ?thesis
    by (simp add: pulse_color_update_def channel_update_def Let_def split: sum.splits prod.splits)
qed


section \<open>The duty-cycle mapper\<close>

lemma pwm_update_spec:
  assumes "update_defined d c" and "types (rgbw_get_data d) c = RGBW_PWM"
  shows "pwm_update (rgbw_get_data d) c (notified (rgbw_get_data d) (brightness (props d c)))
           (max_brightness (props d c)) =
         Inr (if notified (rgbw_get_data d) (brightness (props d c)) = 0
              then [Pwm_config c 0 (period (rgbw_get_data d)), Pwm_disable c]
              else [Pwm_config c
                      (duty_ns_u32 (lth_brightness (rgbw_get_data d))
                         (spec_raw (levels (rgbw_get_data d))
                            (notified (rgbw_get_data d) (brightness (props d c))))
                         (period (rgbw_get_data d)) (max_brightness (props d c)))
                      (period (rgbw_get_data d)),
                    Pwm_enable c])"
  using assms
  by (auto simp: update_defined_def pwm_update_def duty_cycle_of_def level_of_def Let_def
      duty_ns_u32_def spec_raw_def split: option.splits)

lemma pwm_update_not_pwm:
  "types pb c \<noteq> RGBW_PWM \<Longrightarrow> pwm_update pb c b mx = Inr []"
  by (simp add: pwm_update_def)

lemma gpio_writes_append: "gpio_writes (as @ bs) = gpio_writes as @ gpio_writes bs"
  by (simp add: gpio_writes_def)

lemma gpio_writes_pwm_update: "pwm_update pb c b mx = Inr ps \<Longrightarrow> gpio_writes ps = []"
  by (auto simp: pwm_update_def gpio_writes_def split: if_splits sum.splits)

lemma gpio_writes_gpio_update: "gpio_writes (snd (gpio_update pb c)) = []"
  by (simp add: gpio_update_def gpio_writes_def)

lemma gpio_writes_notify_after: "gpio_writes (notify_after_actions pb bs) = []"
  by (induction bs) (simp_all add: notify_after_actions_def gpio_writes_def)

lemma update_loop_gpio_writes:
  "update_loop d pb cs = Inr (pb', as) \<Longrightarrow> gpio_writes as = []"
proof (induction cs arbitrary: pb pb' as)
  case Nil
  then show ?case by (simp add: gpio_writes_def)
next
  case (Cons x xs)
  from Cons.prems obtain pb1 bs ps where
    p: "pwm_update pb x (notified pb (brightness (props d x))) (max_brightness (props d x)) = Inr ps"
    and r: "update_loop d pb1 xs = Inr (pb', bs)"
    and as: "as = (ps @ snd (gpio_update pb x)) @ bs"
    by (auto simp: channel_update_Inr split: sum.splits prod.splits)
  from Cons.IH [OF r] gpio_writes_pwm_update [OF p] show ?case
    by (simp add: as gpio_writes_append gpio_writes_gpio_update)
qed

lemma rgbw_color_update_gpio_writes:
  "rgbw_color_update d = Inr (r, d', as) \<Longrightarrow> gpio_writes as = []"
  by (auto simp: rgbw_color_update_def Let_def gpio_writes_append gpio_writes_notify_after
      split: sum.splits prod.splits dest: update_loop_gpio_writes)

lemma gpio_update_value:
  "gpio_value (soft_pwm (fst (gpio_update pb c)) c') = gpio_value (soft_pwm pb c')"
  by (simp add: gpio_update_def)

lemma duty_fits_spec:
  assumes "duty_fits lth raw p mx"
  shows "uint (duty_ns_u32 lth raw p mx) = spec_duty_ns (uint lth) (uint raw) (uint p) (uint mx)"
proof -
  from assms have le: "lth \<le> p"
    and prod: "uint raw * (uint p - uint lth) < 2 ^ 32"
    and res: "uint lth + uint raw * (uint p - uint lth) div uint mx < 2 ^ 32"
    by (simp_all add: duty_fits_def spec_duty_ns_def)
  have sub: "uint (p - lth) = uint p - uint lth"
    using le by (simp add: uint_sub_lem word_le_def)
  have nn: "0 \<le> uint raw * uint (p - lth)" by simp
  have "uint raw * uint (p - lth) < 2 ^ LENGTH(32)"
    using prod by (simp add: sub)
  with nn have mul: "uint (raw * (p - lth)) = uint raw * uint (p - lth)"
    using uint_mult_lem [of raw "p - lth"] by blast
  have q: "uint (raw * (p - lth) div mx) = uint raw * (uint p - uint lth) div uint mx"
    by (simp add: uint_div mul sub)
  have "uint lth + uint (raw * (p - lth) div mx) < 2 ^ LENGTH(32)"
    using res by (simp add: q)
  then have "uint (lth + raw * (p - lth) div mx) = uint lth + uint (raw * (p - lth) div mx)"
    using uint_add_lem [of lth "raw * (p - lth) div mx"] by blast
  then show ?thesis
    by (simp add: duty_ns_u32_def spec_duty_ns_def q)
qed

text \<open>
  C1 (as amended). Both update paths treat a channel alike: whenever every channel's
  update is defined, \<open>rgbw_color_update\<close> returns 0, and \<open>pulse_color_update\<close> on
  a channel returns 0 and makes for that channel the calls the all-channel update makes
  for it. Neither writes a GPIO pin. For a hardware PWM whose brightness (after the
  \<open>notify\<close> hook, when there is one) is 0 the calls are \<open>pwm_config(0, period)\<close>
  and \<open>pwm_disable\<close>: the output is disabled. For a hardware PWM with a brightness
  b > 0 they are \<open>pwm_config(duty_ns, period)\<close> and \<open>pwm_enable\<close>, where duty_ns is
  lth_brightness + raw * (period - lth_brightness) / max_brightness evaluated in
  unsigned 32-bit arithmetic, raw = levels[b] with a table and raw = b without; it is
  the value of the formula over the integers whenever no operation wraps. For a
  software PWM the update disables nothing: the pin keeps its value and the only call
  is the start of the channel's timer, 1000 ns from now, when that timer is not active.
\<close>

theorem duty_cycle_mapper:
  assumes "\<forall>c'. update_defined d c'"
  shows "\<exists>d' as. rgbw_color_update d = Inr (0, d', as) \<and>
     (\<forall>pc. color_at pc = Some c \<longrightarrow>
        (\<exists>d'' as'. pulse_color_update d pc = Inr (0, d'', as') \<and>
           channel_actions c as' = channel_actions c as \<and> gpio_writes as' = [] \<and>
           gpio_value (soft_pwm (rgbw_get_data d'') c) = gpio_value (soft_pwm (rgbw_get_data d) c))) \<and>
     gpio_writes as = [] \<and>
     gpio_value (soft_pwm (rgbw_get_data d') c) = gpio_value (soft_pwm (rgbw_get_data d) c) \<and>
     (types (rgbw_get_data d) c = RGBW_PWM \<and>
      notified (rgbw_get_data d) (brightness (props d c)) = 0 \<longrightarrow>
        channel_actions c as = [Pwm_config c 0 (period (rgbw_get_data d)), Pwm_disable c]) \<and>
     (types (rgbw_get_data d) c = RGBW_PWM \<and>
      notified (rgbw_get_data d) (brightness (props d c)) \<noteq> 0 \<longrightarrow>
        (\<exists>duty_ns.
           channel_actions c as = [Pwm_config c duty_ns (period (rgbw_get_data d)), Pwm_enable c] \<and>
           duty_ns = duty_ns_u32 (lth_brightness (rgbw_get_data d))
                       (spec_raw (levels (rgbw_get_data d))
                          (notified (rgbw_get_data d) (brightness (props d c))))
                       (period (rgbw_get_data d)) (max_brightness (props d c)) \<and>
           (duty_fits (lth_brightness (rgbw_get_data d))
                (spec_raw (levels (rgbw_get_data d))
                   (notified (rgbw_get_data d) (brightness (props d c))))
                (period (rgbw_get_data d)) (max_brightness (props d c)) \<longrightarrow>
              uint duty_ns =
                spec_duty_ns (uint (lth_brightness (rgbw_get_data d)))
                  (uint (spec_raw (levels (rgbw_get_data d))
                           (notified (rgbw_get_data d) (brightness (props d c)))))
                  (uint (period (rgbw_get_data d))) (uint (max_brightness (props d c)))))) \<and>
     (types (rgbw_get_data d) c = RGBW_GPIO \<longrightarrow>
        channel_actions c as =
          (if hrtimer_active (pwm_timer (soft_pwm (rgbw_get_data d) c)) then []
           else [Hrtimer_start c 1000]))"
proof -
  let ?pb = "rgbw_get_data d"
  let ?b = "notified ?pb (brightness (props d c))"
  let ?mx = "max_brightness (props d c)"
  let ?duty = "duty_ns_u32 (lth_brightness ?pb) (spec_raw (levels ?pb) ?b) (period ?pb) ?mx"
  from assms obtain d' as where u: "rgbw_color_update d = Inr (0, d', as)"
    using rgbw_color_update_defined by blast
  from rgbw_color_update_channel [OF u, of c] obtain ps where
    p: "pwm_update ?pb c ?b ?mx = Inr ps"
    and ca: "channel_actions c as = ps @ snd (gpio_update ?pb c)"
    and sp: "soft_pwm (rgbw_get_data d') c = soft_pwm (fst (gpio_update ?pb c)) c"
    by blast
  have pulse: "\<exists>d'' as'. pulse_color_update d pc = Inr (0, d'', as') \<and>
           channel_actions c as' = channel_actions c as \<and> gpio_writes as' = [] \<and>
           gpio_value (soft_pwm (rgbw_get_data d'') c) = gpio_value (soft_pwm ?pb c)"
    if "color_at pc = Some c" for pc
    using p pwm_update_actions [OF p, of c] gpio_update_actions [of c ?pb c]
      gpio_writes_pwm_update [OF p]
    by (simp add: pulse_color_update_channel [OF that] ca channel_actions_append
        gpio_writes_append gpio_writes_gpio_update gpio_writes_notify_after gpio_update_value)
  have gw: "gpio_writes as = []"
    using u by (rule rgbw_color_update_gpio_writes)
  have gv: "gpio_value (soft_pwm (rgbw_get_data d') c) = gpio_value (soft_pwm ?pb c)"
    by (simp add: sp gpio_update_value)
  have hw: "channel_actions c as =
          (if ?b = 0 then [Pwm_config c 0 (period ?pb), Pwm_disable c]
           else [Pwm_config c ?duty (period ?pb), Pwm_enable c])"
    if t: "types ?pb c = RGBW_PWM"
  proof -
    from assms have "update_defined d c" by simp
    from pwm_update_spec [OF this t] p t show ?thesis
      by (simp add: ca gpio_update_def)
  qed
  have off: "channel_actions c as = [Pwm_config c 0 (period ?pb), Pwm_disable c]"
    if "types ?pb c = RGBW_PWM \<and> ?b = 0"
    using hw that by simp
  have on: "\<exists>duty_ns.
           channel_actions c as = [Pwm_config c duty_ns (period ?pb), Pwm_enable c] \<and>
           duty_ns = ?duty \<and>
           (duty_fits (lth_brightness ?pb) (spec_raw (levels ?pb) ?b) (period ?pb) ?mx \<longrightarrow>
              uint duty_ns =
                spec_duty_ns (uint (lth_brightness ?pb)) (uint (spec_raw (levels ?pb) ?b))
                  (uint (period ?pb)) (uint ?mx))"
    if "types ?pb c = RGBW_PWM \<and> ?b \<noteq> 0"
    using hw that duty_fits_spec by simp
  have sw: "channel_actions c as =
          (if hrtimer_active (pwm_timer (soft_pwm ?pb c)) then []
           else [Hrtimer_start c 1000])" if t: "types ?pb c = RGBW_GPIO"
    using p t by (simp add: ca gpio_update_def pwm_update_not_pwm)
  from u pulse gw gv off on sw show ?thesis by blast
qed

theorem duty_cycle_mapper_witness:
  "(\<forall>c'. update_defined (set_brightness COLOR_RED 1 board) c') \<and>
   (\<exists>d' as. rgbw_color_update (set_brightness COLOR_RED 1 board) = Inr (0, d', as) \<and>
      channel_actions COLOR_RED as = [Pwm_config COLOR_RED 59882 7650000, Pwm_enable COLOR_RED] \<and>
      gpio_writes as = []) \<and>
   duty_fits 30000 1 7650000 255 \<and>
   spec_duty_ns 30000 1 7650000 255 = 59882"
proof -
  let ?d = "set_brightness COLOR_RED 1 board"
  have h: "\<forall>c'. update_defined ?d c'"
    by (simp add: update_defined_def set_brightness_def board_def notified_def)
  have f: "duty_fits 30000 1 7650000 255"
    and s: "spec_duty_ns 30000 1 7650000 255 = 59882"
    by (simp_all add: duty_fits_def spec_duty_ns_def)
  have t: "types (rgbw_get_data ?d) COLOR_RED = RGBW_PWM \<and>
      notified (rgbw_get_data ?d) (brightness (props ?d COLOR_RED)) \<noteq> 0"
    and e: "lth_brightness (rgbw_get_data ?d) = 30000"
       "spec_raw (levels (rgbw_get_data ?d))
          (notified (rgbw_get_data ?d) (brightness (props ?d COLOR_RED))) = 1"
       "period (rgbw_get_data ?d) = 7650000" "max_brightness (props ?d COLOR_RED) = 255"
    by (simp_all add: set_brightness_def board_def notified_def spec_raw_def)
  from duty_cycle_mapper [OF h, of COLOR_RED] t obtain d' as duty_ns where
    u: "rgbw_color_update ?d = Inr (0, d', as)"
    and gw: "gpio_writes as = []"
    and a: "channel_actions COLOR_RED as = [Pwm_config COLOR_RED duty_ns 7650000, Pwm_enable COLOR_RED]"
    and v: "duty_fits 30000 1 7650000 255 \<longrightarrow>
              uint duty_ns = spec_duty_ns (uint (30000 :: u32)) (uint (1 :: u32))
                               (uint (7650000 :: u32)) (uint (255 :: u32))"
    unfolding e by blast
  from v f s have "uint duty_ns = 59882" by simp
  then have "duty_ns = 59882"
    by (simp add: word_uint_eq_iff)
  with h u a gw f s show ?thesis by blast
qed

text \<open>
  A channel at brightness 0 is not always disabled by an update, and the duty cycle is
  not always the value of the formula. On the board whose white soft PWM is in the
  middle of a pulse, with white at brightness 0, either update makes no call for white
  and leaves its pin high. On the board whose \<open>notify\<close> hook answers 1, red at
  brightness 0 is configured for brightness 1 and enabled. On the board at 20 Hz with
  red at 255 of 255 the formula gives 50000000 ns and the update configures
  16313981 ns: the product 255 * 49803922 wraps.
\<close>

theorem duty_cycle_mapper_counterexample:
  "brightness (props board_white_high COLOR_WHITE) = 0 \<and>
   types (rgbw_get_data board_white_high) COLOR_WHITE = RGBW_GPIO \<and>
   gpio_value (soft_pwm (rgbw_get_data board_white_high) COLOR_WHITE) = 1 \<and>
   (\<exists>d'. rgbw_color_update board_white_high =
            Inr (0, d', [Pwm_config COLOR_RED 0 7650000, Pwm_disable COLOR_RED,
                         Pwm_config COLOR_GREEN 0 7650000, Pwm_disable COLOR_GREEN,
                         Pwm_config COLOR_BLUE 0 7650000, Pwm_disable COLOR_BLUE]) \<and>
          gpio_value (soft_pwm (rgbw_get_data d') COLOR_WHITE) = 1) \<and>
   (\<exists>d'. pulse_color_update board_white_high 3 = Inr (0, d', []) \<and>
          gpio_value (soft_pwm (rgbw_get_data d') COLOR_WHITE) = 1) \<and>
   brightness (props board_hooked COLOR_RED) = 0 \<and>
   channel_actions COLOR_RED (update_actions board_hooked)
     = [Pwm_config COLOR_RED 59882 7650000, Pwm_enable COLOR_RED] \<and>
   brightness (props board_20hz COLOR_RED) = 255 \<and>
   channel_actions COLOR_RED (update_actions board_20hz)
     = [Pwm_config COLOR_RED 16313981 50000000, Pwm_enable COLOR_RED] \<and>
   spec_duty_ns (uint (lth_brightness (rgbw_get_data board_20hz)))
     (uint (spec_raw (levels (rgbw_get_data board_20hz)) (brightness (props board_20hz COLOR_RED))))
     (uint (period (rgbw_get_data board_20hz)))
     (uint (max_brightness (props board_20hz COLOR_RED))) = 50000000"
  by (simp add: board_white_high_def board_hooked_def board_20hz_def board_def set_brightness_def
      rgbw_color_update_def pulse_color_update_def channel_update_def pwm_update_def
      gpio_update_def duty_cycle_of_def level_of_def notified_def notify_after_actions_def
      update_actions_def channel_actions_def colors_def color_at_def MAX_COLORS_def
      spec_duty_ns_def spec_raw_def word_sle_eq Let_def)


section \<open>Bounds on the duty cycle\<close>










section \<open>The soft-PWM timer callback\<close>

lemma gpio_loop_first:
  assumes "distinct cs" and "c \<in> set cs" and "types pb c = RGBW_GPIO"
    and "pwm_timer (soft_pwm pb c) = HRTIMER_CALLBACK"
    and "\<forall>c'. c' \<noteq> c \<longrightarrow> pwm_timer (soft_pwm pb c') \<noteq> HRTIMER_CALLBACK"
  shows "gpio_loop d pb cs =
     (pb\<lparr>soft_pwm := (soft_pwm pb)(c := (soft_pwm pb c)\<lparr>gpio_value := fst (gpio_toggle d pb c)\<rparr>)\<rparr>,
      snd (gpio_toggle d pb c),
      [Gpio_set_value (gpio (soft_pwm pb c)) (fst (gpio_toggle d pb c))])"
  using assms
proof (induction cs)
  case Nil
  then show ?case by simp
next
  case (Cons x xs)
  show ?case
  proof (cases "x = c")
    case True
    with Cons.prems show ?thesis by (cases "gpio_toggle d pb c") (simp add: fun_upd_def)
  next
    case False
    with Cons.prems have "\<not> hrtimer_callback_running (pwm_timer (soft_pwm pb x))"
      by (cases "pwm_timer (soft_pwm pb x)") auto
    with False Cons show ?thesis by simp
  qed
qed


lemma positive_u64:
  fixes w :: u64
  assumes "unat w < 2 ^ 32" and "0 < unat w"
  shows "0 <s w"
proof -
  have "uint w < 2 ^ 63"
  proof -
    have "nat (uint w) < 4294967296" using assms by simp
    then have "uint w < 4294967296" by (simp only: nat_less_iff [OF uint_ge_0])
    then show ?thesis by simp
  qed
  moreover have "- (2 ^ 63) \<le> uint w"
  proof -
    have "(0::int) \<le> uint w" by simp
    then have "- 9223372036854775808 \<le> uint w" by linarith
    then show ?thesis by simp
  qed
  ultimately have "signed_take_bit 63 (uint w) = uint w"
    by (rule signed_take_bit_int_eq_self [rotated])
  then have "sint w = uint w" by (simp add: sint_uint)
  moreover have "0 < uint w"
  proof -
    have "0 < int (unat w)" using assms(2) by (simp only: of_nat_0_less_iff)
    then show ?thesis by (simp only: uint_nat)
  qed
  ultimately show ?thesis by (simp add: word_sless_alt)
qed

lemma unat_ucast_u32_u64: "unat (ucast (x :: u32) :: u64) = unat x"
proof -
  have "uint (ucast x :: u64) = uint x"
    by (rule uint_up_ucast) (simp add: is_up)
  then have "nat (uint (ucast x :: u64)) = nat (uint x)"
    by (rule arg_cong)
  then show ?thesis by simp
qed

lemma delay_positive:
  assumes lth: "lth_brightness (rgbw_get_data d) = period (rgbw_get_data d) div max_brightness (props d c)"
    and fit: "max_brightness (props d c) \<le> period (rgbw_get_data d)"
    and b: "brightness (props d c) \<noteq> 0" "brightness (props d c) < max_brightness (props d c)"
  shows "0 <s toggle_delay d c v" and "toggle_delay d c 1 + toggle_delay d c 0 = ucast (period (rgbw_get_data d))"
proof -
  let ?P = "unat (period (rgbw_get_data d))"
  let ?M = "unat (max_brightness (props d c))"
  let ?B = "unat (brightness (props d c))"
  let ?L = "unat (lth_brightness (rgbw_get_data d))"
  have L: "?L = ?P div ?M" by (simp add: lth unat_div)
  have B: "0 < ?B" "?B < ?M" using b by (simp_all add: unat_gt_0 word_less_nat_alt)
  have M: "?M \<le> ?P" using fit by (simp add: word_le_nat_alt)
  have Lpos: "0 < ?L" using L B M by (simp add: div_greater_zero_iff)
  have "?B \<le> ?M - 1" using B by linarith
  then have "?B * ?L \<le> (?M - 1) * ?L" by (rule mult_le_mono1)
  also have "\<dots> = ?M * ?L - ?L" by (simp add: diff_mult_distrib)
  also have "\<dots> \<le> ?P - ?L" using L by (simp add: diff_le_mono)
  finally have BL: "?B * ?L \<le> ?P - ?L" .
  have Plt: "?P < 2 ^ 32" using unsigned_less [of "period (rgbw_get_data d)"] by simp
  have LP: "?L \<le> ?P" using L by simp
  from BL Lpos LP have lt: "?B * ?L < ?P" by linarith
  with Plt have "?B * ?L < 2 ^ 32" by linarith
  then have mul: "unat (brightness (props d c) * lth_brightness (rgbw_get_data d)) = ?B * ?L"
    using unat_mult_lem [of "brightness (props d c)" "lth_brightness (rgbw_get_data d)"] by simp
  have pn: "unat (pulse_ns d c) = ?B * ?L"
    by (simp add: pulse_ns_def unat_ucast_u32_u64 mul)
  have pos: "0 < ?B * ?L" using B Lpos by simp
  have ple: "pulse_ns d c \<le> ucast (period (rgbw_get_data d))"
    using lt by (simp add: word_le_nat_alt pn unat_ucast_u32_u64)
  have low: "unat (ucast (period (rgbw_get_data d)) - pulse_ns d c) = ?P - ?B * ?L"
    using ple by (simp add: unat_sub pn unat_ucast_u32_u64)
  have u: "unat (toggle_delay d c v) = (if v \<noteq> 0 then ?B * ?L else ?P - ?B * ?L)"
    by (simp add: toggle_delay_def pn low)
  with lt pos Plt have "0 < unat (toggle_delay d c v)" and "unat (toggle_delay d c v) < 2 ^ 32"
    by (auto split: if_splits)
  then show "0 <s toggle_delay d c v"
    by (simp add: positive_u64)
  show "toggle_delay d c 1 + toggle_delay d c 0 = ucast (period (rgbw_get_data d))"
    by (simp add: toggle_delay_def)
qed


lemma gpio_callback_firing:
  assumes "types (rgbw_get_data d) c = RGBW_GPIO"
    and "pwm_timer (soft_pwm (rgbw_get_data d) c) = HRTIMER_CALLBACK"
    and "\<forall>c'. c' \<noteq> c \<longrightarrow> pwm_timer (soft_pwm (rgbw_get_data d) c') \<noteq> HRTIMER_CALLBACK"
  shows "rgbw_gpio_hrtimer_callback d =
     (let v = fst (gpio_toggle d (rgbw_get_data d) c);
          t = snd (gpio_toggle d (rgbw_get_data d) c);
          sv = Gpio_set_value (gpio (soft_pwm (rgbw_get_data d) c)) v
      in if 0 <s t then (HRTIMER_RESTART, drive c v d, [sv, Hrtimer_forward t])
         else (HRTIMER_NORESTART, drive c v d, [sv]))"
  using gpio_loop_first [OF distinct_colors set_colors assms, of d]
  by (simp add: rgbw_gpio_hrtimer_callback_def drive_def Let_def)

text \<open>
  C2 (as amended). When the timer of a software-PWM channel fires (its callback is the
  one running): if brightness >= max_brightness the pin is driven high and the timer is
  not restarted; otherwise, if brightness is 0, the pin is driven low and the timer is
  not restarted; otherwise the pin value flips to v = 1 - value, the pin is driven to v
  and the delay is pulse_ns = brightness * lth_brightness (a 32-bit product) when v is
  high and period - pulse_ns when v is low; the timer is restarted after that delay when
  the delay, a signed 64-bit number of nanoseconds, is positive, and is not restarted
  when it is not. With lth_brightness = period / max_brightness and max_brightness <=
  period the delay is always positive, and the high and the low delay add up to the
  period.
\<close>

theorem soft_pwm_firing:
  assumes "types (rgbw_get_data d) c = RGBW_GPIO"
    and "pwm_timer (soft_pwm (rgbw_get_data d) c) = HRTIMER_CALLBACK"
    and "\<forall>c'. c' \<noteq> c \<longrightarrow> pwm_timer (soft_pwm (rgbw_get_data d) c') \<noteq> HRTIMER_CALLBACK"
  shows
    "(max_brightness (props d c) \<le> brightness (props d c) \<longrightarrow>
        rgbw_gpio_hrtimer_callback d =
          (HRTIMER_NORESTART, drive c 1 d, [Gpio_set_value (gpio (soft_pwm (rgbw_get_data d) c)) 1])) \<and>
     (brightness (props d c) < max_brightness (props d c) \<and> brightness (props d c) = 0 \<longrightarrow>
        rgbw_gpio_hrtimer_callback d =
          (HRTIMER_NORESTART, drive c 0 d, [Gpio_set_value (gpio (soft_pwm (rgbw_get_data d) c)) 0])) \<and>
     (brightness (props d c) < max_brightness (props d c) \<and> brightness (props d c) \<noteq> 0 \<longrightarrow>
        (let v = 1 - gpio_value (soft_pwm (rgbw_get_data d) c) in
         rgbw_gpio_hrtimer_callback d =
           (if 0 <s toggle_delay d c v
            then (HRTIMER_RESTART, drive c v d,
                  [Gpio_set_value (gpio (soft_pwm (rgbw_get_data d) c)) v,
                   Hrtimer_forward (toggle_delay d c v)])
            else (HRTIMER_NORESTART, drive c v d,
                  [Gpio_set_value (gpio (soft_pwm (rgbw_get_data d) c)) v])) \<and>
         (lth_brightness (rgbw_get_data d)
            = period (rgbw_get_data d) div max_brightness (props d c) \<and>
          max_brightness (props d c) \<le> period (rgbw_get_data d) \<longrightarrow>
            0 <s toggle_delay d c v \<and>
            toggle_delay d c 1 + toggle_delay d c 0 = ucast (period (rgbw_get_data d)))))"
proof -
  note cb = gpio_callback_firing [OF assms]
  have full: "rgbw_gpio_hrtimer_callback d =
          (HRTIMER_NORESTART, drive c 1 d, [Gpio_set_value (gpio (soft_pwm (rgbw_get_data d) c)) 1])"
    if "max_brightness (props d c) \<le> brightness (props d c)"
    using that by (simp add: cb gpio_toggle_def)
  have off: "rgbw_gpio_hrtimer_callback d =
          (HRTIMER_NORESTART, drive c 0 d, [Gpio_set_value (gpio (soft_pwm (rgbw_get_data d) c)) 0])"
    if "brightness (props d c) < max_brightness (props d c)" "brightness (props d c) = 0"
  proof -
    from that(1) have "\<not> max_brightness (props d c) \<le> brightness (props d c)"
      by (simp add: not_le)
    with that(2) show ?thesis
      by (simp add: cb gpio_toggle_def)
  qed
  have mid: "rgbw_gpio_hrtimer_callback d =
           (if 0 <s toggle_delay d c v
            then (HRTIMER_RESTART, drive c v d,
                  [Gpio_set_value (gpio (soft_pwm (rgbw_get_data d) c)) v,
                   Hrtimer_forward (toggle_delay d c v)])
            else (HRTIMER_NORESTART, drive c v d,
                  [Gpio_set_value (gpio (soft_pwm (rgbw_get_data d) c)) v]))"
    if "brightness (props d c) < max_brightness (props d c)" "brightness (props d c) \<noteq> 0"
      and "v = 1 - gpio_value (soft_pwm (rgbw_get_data d) c)" for v
  proof -
    from that(1) have "\<not> max_brightness (props d c) \<le> brightness (props d c)"
      by (simp add: not_le)
    with that(2,3) show ?thesis
      by (simp add: cb gpio_toggle_def toggle_delay_def pulse_ns_def Let_def)
  qed
  have pos: "0 <s toggle_delay d c v \<and>
            toggle_delay d c 1 + toggle_delay d c 0 = ucast (period (rgbw_get_data d))"
    if "brightness (props d c) < max_brightness (props d c)" "brightness (props d c) \<noteq> 0"
      and "lth_brightness (rgbw_get_data d)
            = period (rgbw_get_data d) div max_brightness (props d c)"
      and "max_brightness (props d c) \<le> period (rgbw_get_data d)" for v
    using delay_positive [OF that(3,4,2,1)] by simp
  from full off mid [OF _ _ refl] pos show ?thesis
    unfolding Let_def by blast
qed


theorem soft_pwm_firing_witness:
  "types (rgbw_get_data (firing COLOR_WHITE (set_brightness COLOR_WHITE 100 board))) COLOR_WHITE
     = RGBW_GPIO \<and>
   pwm_timer (soft_pwm (rgbw_get_data (firing COLOR_WHITE (set_brightness COLOR_WHITE 100 board)))
     COLOR_WHITE) = HRTIMER_CALLBACK \<and>
   pwm_timer (soft_pwm (rgbw_get_data (firing COLOR_WHITE (set_brightness COLOR_WHITE 100 board)))
     COLOR_RED) = HRTIMER_INACTIVE \<and>
   pwm_timer (soft_pwm (rgbw_get_data (firing COLOR_WHITE (set_brightness COLOR_WHITE 100 board)))
     COLOR_GREEN) = HRTIMER_INACTIVE \<and>
   pwm_timer (soft_pwm (rgbw_get_data (firing COLOR_WHITE (set_brightness COLOR_WHITE 100 board)))
     COLOR_BLUE) = HRTIMER_INACTIVE \<and>
   rgbw_gpio_hrtimer_callback (firing COLOR_WHITE (set_brightness COLOR_WHITE 100 board)) =
     (HRTIMER_RESTART,
      drive COLOR_WHITE 1 (firing COLOR_WHITE (set_brightness COLOR_WHITE 100 board)),
      [Gpio_set_value 7 1, Hrtimer_forward 3000000])"
proof -
  let ?d = "firing COLOR_WHITE (set_brightness COLOR_WHITE 100 board)"
  have t: "types (rgbw_get_data ?d) COLOR_WHITE = RGBW_GPIO"
    and r: "pwm_timer (soft_pwm (rgbw_get_data ?d) COLOR_WHITE) = HRTIMER_CALLBACK"
    and o: "\<forall>c'. c' \<noteq> COLOR_WHITE \<longrightarrow>
              pwm_timer (soft_pwm (rgbw_get_data ?d) c') \<noteq> HRTIMER_CALLBACK"
    by (simp_all add: firing_def set_brightness_def board_def)
  have b: "brightness (props ?d COLOR_WHITE) = 100" "max_brightness (props ?d COLOR_WHITE) = 255"
    "gpio_value (soft_pwm (rgbw_get_data ?d) COLOR_WHITE) = 0"
    "gpio (soft_pwm (rgbw_get_data ?d) COLOR_WHITE) = 7"
    "toggle_delay ?d COLOR_WHITE 1 = 3000000"
    by (simp_all add: firing_def set_brightness_def board_def toggle_delay_def pulse_ns_def)
  from soft_pwm_firing [OF t r o] have
    "rgbw_gpio_hrtimer_callback ?d =
       (HRTIMER_RESTART, drive COLOR_WHITE 1 ?d, [Gpio_set_value 7 1, Hrtimer_forward 3000000])"
    by (simp add: b Let_def word_sless_alt)
  moreover have "pwm_timer (soft_pwm (rgbw_get_data ?d) COLOR_RED) = HRTIMER_INACTIVE"
    "pwm_timer (soft_pwm (rgbw_get_data ?d) COLOR_GREEN) = HRTIMER_INACTIVE"
    "pwm_timer (soft_pwm (rgbw_get_data ?d) COLOR_BLUE) = HRTIMER_INACTIVE"
    by (simp_all add: firing_def set_brightness_def board_def)
  ultimately show ?thesis using t r by blast
qed

text \<open>
  The restart is not unconditional: with 0 ns per level the pulse width is 0, the pin
  goes high at brightness 1 of 5 and the timer stops.
\<close>

theorem soft_pwm_firing_counterexample:
  "brightness (props board_coarse COLOR_WHITE) \<noteq> 0 \<and>
   brightness (props board_coarse COLOR_WHITE) < max_brightness (props board_coarse COLOR_WHITE) \<and>
   rgbw_gpio_hrtimer_callback board_coarse =
     (HRTIMER_NORESTART, drive COLOR_WHITE 1 board_coarse, [Gpio_set_value 7 1])"
  by (simp add: board_coarse_def firing_def drive_def rgbw_gpio_hrtimer_callback_def colors_def
      gpio_toggle_def)


section \<open>The effect callbacks\<close>

subsection \<open>The pulse table and its index\<close>

lemma length_pulse_val_table: "length pulse_val_table = 80" by (simp add: pulse_val_table_def)

lemma pulse_val_size_eq: "pulse_val_size = 80" by (simp add: pulse_val_size_def length_pulse_val_table)




subsection \<open>A callback whose effect is not active\<close>

text \<open>
  C9. Each of the four effect callbacks (pulse, blink, heartbeat, rainbow), fired while
  its bit is not set in the active-effect state, answers \<open>HRTIMER_NORESTART\<close>,
  leaves the whole device (every brightness and the effect state) as it was and makes
  no call. This holds whatever the values of the four bits are.
\<close>

theorem inactive_effect_stops:
  "(state (acts d) AND RGBW_PULSE_ON h = 0 \<longrightarrow>
      rgbw_pulse_hrtimer_callback h d = Inr (HRTIMER_NORESTART, d, [])) \<and>
   (state (acts d) AND RGBW_BLINK_ON h = 0 \<longrightarrow>
      rgbw_blink_hrtimer_callback h d = Inr (HRTIMER_NORESTART, d, [])) \<and>
   (state (acts d) AND RGBW_HB_ON h = 0 \<longrightarrow>
      rgbw_hb_hrtimer_callback h d = Inr (HRTIMER_NORESTART, d, [])) \<and>
   (state (acts d) AND RGBW_RB_ON h = 0 \<longrightarrow>
      rgbw_rb_hrtimer_callback h d = Inr (HRTIMER_NORESTART, d, []))"
  by (simp add: rgbw_pulse_hrtimer_callback_def rgbw_blink_hrtimer_callback_def
      rgbw_hb_hrtimer_callback_def rgbw_rb_hrtimer_callback_def)

theorem inactive_effect_stops_witness:
  "state (acts (set_state 4 board)) AND RGBW_PULSE_ON rgbw_h0 = 0 \<and>
   rgbw_pulse_hrtimer_callback rgbw_h0 (set_state 4 board)
     = Inr (HRTIMER_NORESTART, set_state 4 board, []) \<and>
   state (acts (set_state 4 board)) AND RGBW_BLINK_ON rgbw_h0 = 0 \<and>
   rgbw_blink_hrtimer_callback rgbw_h0 (set_state 4 board)
     = Inr (HRTIMER_NORESTART, set_state 4 board, []) \<and>
   state (acts (set_state 1 board)) AND RGBW_HB_ON rgbw_h0 = 0 \<and>
   rgbw_hb_hrtimer_callback rgbw_h0 (set_state 1 board)
     = Inr (HRTIMER_NORESTART, set_state 1 board, []) \<and>
   state (acts (set_state 4 board)) AND RGBW_RB_ON rgbw_h0 = 0 \<and>
   rgbw_rb_hrtimer_callback rgbw_h0 (set_state 4 board)
     = Inr (HRTIMER_NORESTART, set_state 4 board, [])"
proof -
  have a: "state (acts (set_state 4 board)) AND RGBW_PULSE_ON rgbw_h0 = 0"
    and b: "state (acts (set_state 4 board)) AND RGBW_BLINK_ON rgbw_h0 = 0"
    and c: "state (acts (set_state 1 board)) AND RGBW_HB_ON rgbw_h0 = 0"
    and e: "state (acts (set_state 4 board)) AND RGBW_RB_ON rgbw_h0 = 0"
    by (simp_all add: set_state_def rgbw_h0_def)
  from a b c e inactive_effect_stops [of "set_state 4 board" rgbw_h0]
    inactive_effect_stops [of "set_state 1 board" rgbw_h0]
  show ?thesis by blast
qed

subsection \<open>The index of the pulse table\<close>






subsection \<open>What an effect callback leaves unchanged\<close>

lemma update_defined_cong:
  "same_config (rgbw_get_data d) (rgbw_get_data d') \<Longrightarrow>
     brightness (props d' c) = brightness (props d c) \<Longrightarrow>
     max_brightness (props d' c) = max_brightness (props d c) \<Longrightarrow>
     update_defined d' c = update_defined d c"
proof -
  assume c: "same_config (rgbw_get_data d) (rgbw_get_data d')"
    and p: "brightness (props d' c) = brightness (props d c)"
      "max_brightness (props d' c) = max_brightness (props d c)"
  from c have n: "notified (rgbw_get_data d') = notified (rgbw_get_data d)"
    by (simp add: fun_eq_iff notified_cong)
  from c have "types (rgbw_get_data d') = types (rgbw_get_data d)"
    "levels (rgbw_get_data d') = levels (rgbw_get_data d)"
    by (simp_all add: same_config_def)
  with n p show ?thesis
    by (simp add: update_defined_def Let_def cong: option.case_cong)
qed

lemma update_and_forward_Inr:
  "update_and_forward d ns = Inr (r, d', as) \<Longrightarrow>
     r = HRTIMER_RESTART \<and> props d' = props d \<and> acts d' = acts d \<and>
     same_config (rgbw_get_data d) (rgbw_get_data d') \<and> as \<noteq> [] \<and> last as = Hrtimer_forward ns"
  by (auto simp: update_and_forward_def split: sum.splits prod.splits
      dest: rgbw_color_update_Inr)

lemma update_and_forward_defined:
  assumes "\<forall>c. update_defined d c"
  shows "\<exists>d' as. update_and_forward d ns = Inr (HRTIMER_RESTART, d', as)"
proof -
  from rgbw_color_update_defined [OF assms] obtain d' as where
    "rgbw_color_update d = Inr (0, d', as)" by blast
  then show ?thesis by (simp add: update_and_forward_def)
qed

lemma same_setup_refl [simp]: "same_setup d d"
  by (simp add: same_setup_def)

lemma same_setup_trans: "same_setup a b \<Longrightarrow> same_setup b c \<Longrightarrow> same_setup a c"
  by (auto simp: same_setup_def intro: same_config_trans)

lemma props_set_all [simp]:
  "props (set_all off d) c = (props d c)\<lparr>brightness := (if off then 0 else rgbw_values (acts d) c)\<rparr>"
  "acts (set_all off d) = acts d" "rgbw_get_data (set_all off d) = rgbw_get_data d"
  by (simp_all add: set_all_def)

lemma set_bstate_simps [simp]:
  "props (set_bstate s d) = props d" "rgbw_get_data (set_bstate s d) = rgbw_get_data d"
  "bstate (acts (set_bstate s d)) = s" "state (acts (set_bstate s d)) = state (acts d)"
  "pcolor (acts (set_bstate s d)) = pcolor (acts d)"
  "rgbw_values (acts (set_bstate s d)) = rgbw_values (acts d)"
  by (simp_all add: set_bstate_def)

lemma set_brightness_simps [simp]:
  "props (set_brightness c b d) c' = (if c' = c then (props d c)\<lparr>brightness := b\<rparr> else props d c')"
  "acts (set_brightness c b d) = acts d" "rgbw_get_data (set_brightness c b d) = rgbw_get_data d"
  by (simp_all add: set_brightness_def)

subsection \<open>The heartbeat\<close>

text \<open>One firing of the heartbeat callback.\<close>

lemma hb_step:
  assumes act: "state (acts d) AND RGBW_HB_ON h \<noteq> 0"
    and def: "\<forall>c. update_defined (set_all (sint (bstate (acts d)) mod 2 \<noteq> 0) d) c"
  shows "\<exists>d' as. rgbw_hb_hrtimer_callback h d = Inr (HRTIMER_RESTART, d', as) \<and>
     same_setup d d' \<and>
     (\<forall>c. brightness (props d' c)
            = (if sint (bstate (acts d)) mod 2 \<noteq> 0 then 0 else rgbw_values (acts d) c)) \<and>
     bstate (acts d') = (if bstate (acts d) <s 3 then bstate (acts d) + 1 else 0) \<and>
     as \<noteq> [] \<and>
     last as = Hrtimer_forward (if bstate (acts d) <s 3 then 100000000 else 700000000)"
proof -
  let ?bs = "bstate (acts d)"
  let ?d1 = "set_bstate (if ?bs <s 3 then ?bs + 1 else 0) (set_all (sint ?bs mod 2 \<noteq> 0) d)"
  let ?ns = "if ?bs <s 3 then 100000000 else 700000000 :: u64"
  have "update_defined ?d1 c = update_defined (set_all (sint ?bs mod 2 \<noteq> 0) d) c" for c
    by (rule update_defined_cong) simp_all
  with def have "\<forall>c. update_defined ?d1 c"
    by simp
  from update_and_forward_defined [OF this, of ?ns] obtain d' as where
    u: "update_and_forward ?d1 ?ns = Inr (HRTIMER_RESTART, d', as)" by blast
  from update_and_forward_Inr [OF u] have
    p: "props d' = props ?d1" "acts d' = acts ?d1"
      "same_config (rgbw_get_data ?d1) (rgbw_get_data d')" "as \<noteq> []" "last as = Hrtimer_forward ?ns"
    by simp_all
  have cb: "rgbw_hb_hrtimer_callback h d = Inr (HRTIMER_RESTART, d', as)"
    using act u by (cases "?bs <s 3") (simp_all add: rgbw_hb_hrtimer_callback_def Let_def)
  have "same_setup d d'"
    using p by (simp add: same_setup_def)
  with cb p show ?thesis by simp
qed


lemma set_all_defined_cong:
  assumes "same_setup d d'"
  shows "update_defined (set_all off d') c = update_defined (set_all off d) c"
  using assms by (intro update_defined_cong) (simp_all add: same_setup_def)

lemma hb_bstate_cases:
  fixes k :: nat
  assumes "k < 4"
  shows "(sint (of_nat k :: u32) mod 2 \<noteq> 0) = odd k"
    and "((of_nat k :: u32) <s 3) = (k < 3)"
    and "(if k < 3 then (of_nat k :: u32) + 1 else 0) = of_nat (Suc k mod 4)"
proof -
  from assms consider "k = 0" | "k = 1" | "k = 2" | "k = 3" by linarith
  then show "(sint (of_nat k :: u32) mod 2 \<noteq> 0) = odd k"
    by cases simp_all
  from assms consider "k = 0" | "k = 1" | "k = 2" | "k = 3" by linarith
  then show "((of_nat k :: u32) <s 3) = (k < 3)"
    by cases (simp_all add: word_sless_alt)
  from assms consider "k = 0" | "k = 1" | "k = 2" | "k = 3" by linarith
  then show "(if k < 3 then (of_nat k :: u32) + 1 else 0) = of_nat (Suc k mod 4)"
    by cases simp_all
qed

lemma hb_run:
  assumes "state (acts d) AND RGBW_HB_ON h \<noteq> 0"
    and "\<forall>c. update_defined (set_all False d) c" and "\<forall>c. update_defined (set_all True d) c"
    and "bstate (acts d) = of_nat (k mod 4)"
  shows "\<exists>tr. timer_run (rgbw_hb_hrtimer_callback h) n d = Inr tr \<and> length tr = n \<and>
     (\<forall>i<n. same_setup d (fst (tr ! i)) \<and>
        channels_brightness (fst (tr ! i))
          = (if odd (k + i) then [0, 0, 0, 0] else map (rgbw_values (acts d)) colors) \<and>
        bstate (acts (fst (tr ! i))) = of_nat (Suc (k + i) mod 4) \<and>
        last (snd (tr ! i))
          = Hrtimer_forward (if (k + i) mod 4 = 3 then 700000000 else 100000000))"
  using assms
proof (induction n arbitrary: d k)
  case 0
  then show ?case by simp
next
  case (Suc n)
  let ?off = "sint (bstate (acts d)) mod 2 \<noteq> 0"
  have k4: "k mod 4 < 4" by simp
  have par: "odd (k mod 4) = odd k" by presburger
  have off: "?off = odd k"
    using hb_bstate_cases(1) [OF k4] par by (simp only: Suc.prems(4))
  have lt: "(bstate (acts d) <s 3) = (k mod 4 < 3)"
    using hb_bstate_cases(2) [OF k4] by (simp only: Suc.prems(4))
  have nx: "(if k mod 4 < 3 then bstate (acts d) + 1 else 0) = of_nat (Suc (k mod 4) mod 4)"
    using hb_bstate_cases(3) [OF k4] by (simp only: Suc.prems(4))
  have sm: "Suc (k mod 4) mod 4 = Suc k mod 4"
    by (simp add: mod_simps)
  have "\<forall>c. update_defined (set_all ?off d) c"
    using Suc.prems(2,3) by (cases ?off) simp_all
  from hb_step [OF Suc.prems(1) this] obtain d1 as1 where
    cb: "rgbw_hb_hrtimer_callback h d = Inr (HRTIMER_RESTART, d1, as1)"
    and ss: "same_setup d d1"
    and br: "\<forall>c. brightness (props d1 c) = (if ?off then 0 else rgbw_values (acts d) c)"
    and bs: "bstate (acts d1) = (if bstate (acts d) <s 3 then bstate (acts d) + 1 else 0)"
    and la: "last as1 = Hrtimer_forward (if bstate (acts d) <s 3 then 100000000 else 700000000)"
    by blast
  have bs1: "bstate (acts d1) = of_nat (Suc k mod 4)"
    using bs nx sm by (simp only: lt)
  have st1: "state (acts d1) AND RGBW_HB_ON h \<noteq> 0"
    using ss Suc.prems(1) by (simp add: same_setup_def)
  have d1f: "\<forall>c. update_defined (set_all False d1) c" and d1t: "\<forall>c. update_defined (set_all True d1) c"
    using Suc.prems(2,3) by (simp_all add: set_all_defined_cong [OF ss])
  from Suc.IH [OF st1 d1f d1t bs1] obtain tr where
    run: "timer_run (rgbw_hb_hrtimer_callback h) n d1 = Inr tr" and len: "length tr = n"
    and rest: "\<forall>i<n. same_setup d1 (fst (tr ! i)) \<and>
        channels_brightness (fst (tr ! i))
          = (if odd (Suc k + i) then [0, 0, 0, 0] else map (rgbw_values (acts d1)) colors) \<and>
        bstate (acts (fst (tr ! i))) = of_nat (Suc (Suc k + i) mod 4) \<and>
        last (snd (tr ! i))
          = Hrtimer_forward (if (Suc k + i) mod 4 = 3 then 700000000 else 100000000)"
    by blast
  have sv: "rgbw_values (acts d1) = rgbw_values (acts d)"
    using ss by (simp add: same_setup_def)
  have first: "channels_brightness d1 = (if odd k then [0, 0, 0, 0] else map (rgbw_values (acts d)) colors)"
    using br off by (simp add: channels_brightness_def colors_def)
  have "(k mod 4 < 3) = (k mod 4 \<noteq> 3)" using k4 by linarith
  with la lt have la0: "last as1 = Hrtimer_forward (if k mod 4 = 3 then 700000000 else 100000000)"
    by simp
  have "timer_run (rgbw_hb_hrtimer_callback h) (Suc n) d = Inr ((d1, as1) # tr)"
    using cb run by simp
  moreover have "length ((d1, as1) # tr) = Suc n" using len by simp
  moreover have "same_setup d (fst (((d1, as1) # tr) ! i)) \<and>
        channels_brightness (fst (((d1, as1) # tr) ! i))
          = (if odd (k + i) then [0, 0, 0, 0] else map (rgbw_values (acts d)) colors) \<and>
        bstate (acts (fst (((d1, as1) # tr) ! i))) = of_nat (Suc (k + i) mod 4) \<and>
        last (snd (((d1, as1) # tr) ! i))
          = Hrtimer_forward (if (k + i) mod 4 = 3 then 700000000 else 100000000)"
    if "i < Suc n" for i
  proof (cases i)
    case 0
    then show ?thesis using ss first bs1 la0 by simp
  next
    case (Suc j)
    with that have "j < n" by simp
    with rest have r: "same_setup d1 (fst (tr ! j))"
      "channels_brightness (fst (tr ! j))
          = (if odd (Suc k + j) then [0, 0, 0, 0] else map (rgbw_values (acts d1)) colors)"
      "bstate (acts (fst (tr ! j))) = of_nat (Suc (Suc k + j) mod 4)"
      "last (snd (tr ! j))
          = Hrtimer_forward (if (Suc k + j) mod 4 = 3 then 700000000 else 100000000)"
      by simp_all
    have e: "Suc k + j = k + i" using Suc by simp
    from r(2,3,4) have
      "channels_brightness (fst (tr ! j))
          = (if odd (k + i) then [0, 0, 0, 0] else map (rgbw_values (acts d)) colors)"
      "bstate (acts (fst (tr ! j))) = of_nat (Suc (k + i) mod 4)"
      "last (snd (tr ! j))
          = Hrtimer_forward (if (k + i) mod 4 = 3 then 700000000 else 100000000)"
      by (simp_all only: e sv)
    with same_setup_trans [OF ss r(1)] show ?thesis
      by (simp add: Suc)
  qed
  ultimately show ?case by blast
qed


text \<open>
  C5. While the heartbeat is active, starting at step 0 with the saved colour
  [200,0,0,0], the firings of its callback set the four channels to [200,0,0,0],
  [0,0,0,0], [200,0,0,0], [0,0,0,0] and so on for every number of firings (the saved
  colour on the even firings, all off on the odd ones), each firing forwarding the timer
  by 100 ms except every fourth, which forwards it by 700 ms, and the step returning to
  0 after every fourth firing. The run never faults when pushing the saved colour and
  pushing all-off are defined updates.
\<close>

theorem heartbeat_cycle:
  assumes "state (acts d) AND RGBW_HB_ON h \<noteq> 0" and "bstate (acts d) = 0"
    and "map (rgbw_values (acts d)) colors = [200, 0, 0, 0]"
    and "\<forall>c. update_defined (set_all False d) c" and "\<forall>c. update_defined (set_all True d) c"
  shows "\<exists>tr. timer_run (rgbw_hb_hrtimer_callback h) n d = Inr tr \<and> length tr = n \<and>
     (\<forall>i<n. channels_brightness (fst (tr ! i)) = (if even i then [200, 0, 0, 0] else [0, 0, 0, 0]) \<and>
        last (snd (tr ! i)) = Hrtimer_forward (if i mod 4 = 3 then 700000000 else 100000000) \<and>
        bstate (acts (fst (tr ! i))) = of_nat (Suc i mod 4))"
proof -
  have "bstate (acts d) = of_nat (0 mod 4)"
    using assms(2) by simp
  from hb_run [OF assms(1,4,5) this, of n] obtain tr where
    "timer_run (rgbw_hb_hrtimer_callback h) n d = Inr tr" "length tr = n"
    "\<forall>i<n. same_setup d (fst (tr ! i)) \<and>
        channels_brightness (fst (tr ! i))
          = (if odd (0 + i) then [0, 0, 0, 0] else map (rgbw_values (acts d)) colors) \<and>
        bstate (acts (fst (tr ! i))) = of_nat (Suc (0 + i) mod 4) \<and>
        last (snd (tr ! i))
          = Hrtimer_forward (if (0 + i) mod 4 = 3 then 700000000 else 100000000)"
    by blast
  then show ?thesis
    using assms(3) by auto
qed

lemma list4:
  assumes "length xs = 4"
  shows "xs = [xs ! 0, xs ! 1, xs ! 2, xs ! 3]"
proof -
  from assms obtain a b c e where "xs = [a, b, c, e]"
    by (auto simp: eval_nat_numeral length_Suc_conv)
  then show ?thesis by simp
qed

theorem heartbeat_cycle_witness:
  "state (acts board_hb) AND RGBW_HB_ON rgbw_h0 \<noteq> 0 \<and> bstate (acts board_hb) = 0 \<and>
   map (rgbw_values (acts board_hb)) colors = [200, 0, 0, 0] \<and>
   (\<forall>c. update_defined (set_all False board_hb) c) \<and>
   (\<forall>c. update_defined (set_all True board_hb) c) \<and>
   (\<exists>tr. timer_run (rgbw_hb_hrtimer_callback rgbw_h0) 4 board_hb = Inr tr \<and>
      map (\<lambda>x. channels_brightness (fst x)) tr
        = [[200, 0, 0, 0], [0, 0, 0, 0], [200, 0, 0, 0], [0, 0, 0, 0]] \<and>
      map (\<lambda>x. last (snd x)) tr
        = [Hrtimer_forward 100000000, Hrtimer_forward 100000000, Hrtimer_forward 100000000,
           Hrtimer_forward 700000000])"
proof -
  have a: "state (acts board_hb) AND RGBW_HB_ON rgbw_h0 \<noteq> 0"
    and b: "bstate (acts board_hb) = 0"
    and c: "map (rgbw_values (acts board_hb)) colors = [200, 0, 0, 0]"
    by (simp_all add: board_hb_def rgbw_h0_def colors_def)
  have e: "\<forall>c. update_defined (set_all False board_hb) c"
    and f: "\<forall>c. update_defined (set_all True board_hb) c"
    by (simp_all add: update_defined_def board_hb_def board_def notified_def)
  from heartbeat_cycle [OF a b c e f, of 4] obtain tr where
    run: "timer_run (rgbw_hb_hrtimer_callback rgbw_h0) 4 board_hb = Inr tr" and len: "length tr = 4"
    and at: "\<forall>i<4. channels_brightness (fst (tr ! i)) = (if even i then [200, 0, 0, 0] else [0, 0, 0, 0]) \<and>
        last (snd (tr ! i)) = Hrtimer_forward (if i mod 4 = 3 then 700000000 else 100000000) \<and>
        bstate (acts (fst (tr ! i))) = of_nat (Suc i mod 4)"
    by blast
  from at have v: "channels_brightness (fst (tr ! 0)) = [200, 0, 0, 0]"
    "channels_brightness (fst (tr ! 1)) = [0, 0, 0, 0]"
    "channels_brightness (fst (tr ! 2)) = [200, 0, 0, 0]"
    "channels_brightness (fst (tr ! 3)) = [0, 0, 0, 0]"
    "last (snd (tr ! 0)) = Hrtimer_forward 100000000"
    "last (snd (tr ! 1)) = Hrtimer_forward 100000000"
    "last (snd (tr ! 2)) = Hrtimer_forward 100000000"
    "last (snd (tr ! 3)) = Hrtimer_forward 700000000"
    by simp_all
  have "map (\<lambda>x. channels_brightness (fst x)) tr
        = [[200, 0, 0, 0], [0, 0, 0, 0], [200, 0, 0, 0], [0, 0, 0, 0]]"
    using v by (subst list4 [OF len]) simp
  moreover have "map (\<lambda>x. last (snd x)) tr
        = [Hrtimer_forward 100000000, Hrtimer_forward 100000000, Hrtimer_forward 100000000,
           Hrtimer_forward 700000000]"
    using v by (subst list4 [OF len]) simp
  ultimately have ex: "\<exists>tr. timer_run (rgbw_hb_hrtimer_callback rgbw_h0) 4 board_hb = Inr tr \<and>
      map (\<lambda>x. channels_brightness (fst x)) tr
        = [[200, 0, 0, 0], [0, 0, 0, 0], [200, 0, 0, 0], [0, 0, 0, 0]] \<and>
      map (\<lambda>x. last (snd x)) tr
        = [Hrtimer_forward 100000000, Hrtimer_forward 100000000, Hrtimer_forward 100000000,
           Hrtimer_forward 700000000]"
    using run by (intro exI [of _ tr] conjI)
  show ?thesis by (intro conjI a b c e f ex)
qed


subsection \<open>The rainbow in state 0\<close>

lemma unat_of_nat_small: "n < 2 ^ 32 \<Longrightarrow> unat (of_nat n :: u32) = n"
  by (simp add: unat_of_nat)

lemma rb_threshold:
  assumes "g < 255"
  shows "((254 :: u32) < of_nat g + 1) = (Suc g = 255)"
proof -
  have e: "(of_nat g + 1 :: u32) = of_nat (Suc g)" by simp
  have "Suc g < 2 ^ 32" using assms by simp
  then have "unat (of_nat (Suc g) :: u32) = Suc g" by (rule unat_of_nat_small)
  then have "((254 :: u32) < of_nat (Suc g)) = (Suc g = 255)"
    using assms by (auto simp: word_less_nat_alt)
  then show ?thesis by (simp only: e)
qed

lemma rb_step0:
  assumes act: "state (acts d) AND RGBW_RB_ON h \<noteq> 0" and bs: "bstate (acts d) = 0"
    and mx: "max_brightness (props d COLOR_GREEN) = 255"
    and g: "brightness (props d COLOR_GREEN) = of_nat g" "g < 255"
    and def: "\<forall>c. update_defined (set_brightness COLOR_GREEN (of_nat g + 1) d) c"
  shows "\<exists>d' as. rgbw_rb_hrtimer_callback h d = Inr (HRTIMER_RESTART, d', as) \<and>
     same_setup d d' \<and>
     brightness (props d' COLOR_GREEN) = of_nat g + 1 \<and>
     (\<forall>c. c \<noteq> COLOR_GREEN \<longrightarrow> brightness (props d' c) = brightness (props d c)) \<and>
     bstate (acts d') = (if Suc g = 255 then 1 else 0) \<and>
     last as = Hrtimer_forward (PULSE_VALUE_PER_NS h)"
proof -
  let ?d0 = "set_brightness COLOR_GREEN (of_nat g + 1) d"
  let ?d1 = "if Suc g = 255 then set_bstate 1 ?d0 else ?d0"
  have "rb_switch d = rb_increase COLOR_GREEN 1 d"
    using bs by (simp add: rb_switch_def)
  also have "\<dots> = (if 254 < of_nat g + (1::u32) then set_bstate 1 ?d0 else ?d0)"
    using mx g(1) by (simp add: rb_increase_def Let_def)
  also have "\<dots> = ?d1"
    by (simp only: rb_threshold [OF g(2)])
  finally have sw: "rb_switch d = ?d1" .
  have "update_defined ?d1 c = update_defined ?d0 c" for c
    by (rule update_defined_cong) simp_all
  with def have "\<forall>c. update_defined ?d1 c" by simp
  from update_and_forward_defined [OF this, of "PULSE_VALUE_PER_NS h"] obtain d' as where
    u: "update_and_forward ?d1 (PULSE_VALUE_PER_NS h) = Inr (HRTIMER_RESTART, d', as)" by blast
  from update_and_forward_Inr [OF u] have
    p: "props d' = props ?d1" "acts d' = acts ?d1"
      "same_config (rgbw_get_data ?d1) (rgbw_get_data d')"
      "last as = Hrtimer_forward (PULSE_VALUE_PER_NS h)"
    by simp_all
  have "rgbw_rb_hrtimer_callback h d = update_and_forward (rb_switch d) (PULSE_VALUE_PER_NS h)"
    using act by (simp add: rgbw_rb_hrtimer_callback_def)
  then have cb: "rgbw_rb_hrtimer_callback h d = Inr (HRTIMER_RESTART, d', as)"
    by (simp only: sw u)
  show ?thesis
  proof (cases "Suc g = 255")
    case True
    with cb p bs show ?thesis by (simp add: same_setup_def)
  next
    case False
    with cb p bs show ?thesis by (simp add: same_setup_def)
  qed
qed


lemma rb_run0:
  assumes "state (acts d) AND RGBW_RB_ON h \<noteq> 0" and "bstate (acts d) = 0"
    and "max_brightness (props d COLOR_GREEN) = 255"
    and "brightness (props d COLOR_GREEN) = of_nat g" and "g + n \<le> 255"
    and "\<forall>k c. k \<le> 255 \<longrightarrow> update_defined (set_brightness COLOR_GREEN (of_nat k) d) c"
  shows "\<exists>tr. timer_run (rgbw_rb_hrtimer_callback h) n d = Inr tr \<and> length tr = n \<and>
     (\<forall>i<n. same_setup d (fst (tr ! i)) \<and>
        brightness (props (fst (tr ! i)) COLOR_GREEN) = of_nat (Suc (g + i)) \<and>
        (\<forall>c. c \<noteq> COLOR_GREEN \<longrightarrow> brightness (props (fst (tr ! i)) c) = brightness (props d c)) \<and>
        bstate (acts (fst (tr ! i))) = (if Suc (g + i) = 255 then 1 else 0))"
  using assms
proof (induction n arbitrary: d g)
  case 0
  then show ?case by simp
next
  case (Suc n)
  let ?Q = "\<lambda>d g tr i. same_setup d (fst (tr ! i)) \<and>
        brightness (props (fst (tr ! i)) COLOR_GREEN) = of_nat (Suc (g + i)) \<and>
        (\<forall>c. c \<noteq> COLOR_GREEN \<longrightarrow> brightness (props (fst (tr ! i)) c) = brightness (props d c)) \<and>
        bstate (acts (fst (tr ! i))) = (if Suc (g + i) = 255 then (1::u32) else 0)"
  have glt: "g < 255" using Suc.prems(5) by simp
  have e: "(of_nat g + 1 :: u32) = of_nat (Suc g)" by simp
  have "Suc g \<le> 255" using glt by simp
  with Suc.prems(6) have "\<forall>c. update_defined (set_brightness COLOR_GREEN (of_nat (Suc g)) d) c"
    by blast
  then have "\<forall>c. update_defined (set_brightness COLOR_GREEN (of_nat g + 1) d) c"
    unfolding e .
  from rb_step0 [OF Suc.prems(1,2,3,4) glt this] obtain d1 as1 where
    cb: "rgbw_rb_hrtimer_callback h d = Inr (HRTIMER_RESTART, d1, as1)"
    and ss: "same_setup d d1"
    and g1: "brightness (props d1 COLOR_GREEN) = of_nat (Suc g)"
    and ot: "\<forall>c. c \<noteq> COLOR_GREEN \<longrightarrow> brightness (props d1 c) = brightness (props d c)"
    and bs1: "bstate (acts d1) = (if Suc g = 255 then 1 else 0)"
    by (auto simp only: e)
  have "\<exists>tr. timer_run (rgbw_rb_hrtimer_callback h) n d1 = Inr tr \<and> length tr = n \<and>
          (\<forall>i<n. ?Q d1 (Suc g) tr i)"
  proof (cases n)
    case 0
    then show ?thesis by simp
  next
    case (Suc m)
    with Suc.prems(5) have "Suc g \<noteq> 255" by simp
    with bs1 have b0: "bstate (acts d1) = 0" by simp
    have st1: "state (acts d1) AND RGBW_RB_ON h \<noteq> 0"
      and mx1: "max_brightness (props d1 COLOR_GREEN) = 255"
      using ss Suc.prems(1,3) by (simp_all add: same_setup_def)
    have le1: "Suc g + n \<le> 255" using Suc.prems(5) by simp
    have "update_defined (set_brightness COLOR_GREEN v d1) c
            = update_defined (set_brightness COLOR_GREEN v d) c" for v c
      using ss ot by (intro update_defined_cong) (simp_all add: same_setup_def)
    with Suc.prems(6) have
      df1: "\<forall>k c. k \<le> 255 \<longrightarrow> update_defined (set_brightness COLOR_GREEN (of_nat k) d1) c"
      by simp
    from Suc.IH [OF st1 b0 mx1 g1 le1 df1] show ?thesis .
  qed
  then obtain tr where
    run: "timer_run (rgbw_rb_hrtimer_callback h) n d1 = Inr tr" and len: "length tr = n"
    and rest: "\<forall>i<n. ?Q d1 (Suc g) tr i"
    by blast
  have "timer_run (rgbw_rb_hrtimer_callback h) (Suc n) d = Inr ((d1, as1) # tr)"
    using cb run by simp
  moreover have "length ((d1, as1) # tr) = Suc n" using len by simp
  moreover have "?Q d g ((d1, as1) # tr) i" if "i < Suc n" for i
  proof (cases i)
    case 0
    then show ?thesis using ss g1 ot bs1 by simp
  next
    case (Suc j)
    with that have "j < n" by simp
    with rest have r: "?Q d1 (Suc g) tr j" by simp
    have "same_setup d (fst (tr ! j))"
      using same_setup_trans [OF ss] r by blast
    moreover have "\<forall>c. c \<noteq> COLOR_GREEN \<longrightarrow> brightness (props (fst (tr ! j)) c) = brightness (props d c)"
      using r ot by simp
    ultimately show ?thesis
      using r by (simp add: Suc)
  qed
  ultimately show ?case by blast
qed


text \<open>
  C6. While the rainbow is active in state 0 with max_brightness 255 on every channel
  and red at 255, green and blue at 0: red stays at 255 and blue at 0; the 255 ticks
  numbered 0 to 254 each start in state 0 with green at the tick's number, so that over
  these 255 ticks green goes from 0 up to 254, and each of them adds one to green; the
  state is still 0 after each of the first 254 ticks and is 1 after the 255th.
\<close>

theorem rainbow_state0:
  assumes "state (acts d) AND RGBW_RB_ON h \<noteq> 0" and "bstate (acts d) = 0"
    and "\<forall>c. max_brightness (props d c) = 255"
    and "brightness (props d COLOR_RED) = 255" and "brightness (props d COLOR_GREEN) = 0"
    and "brightness (props d COLOR_BLUE) = 0"
    and "n \<le> 255"
    and "\<forall>k c. k \<le> 255 \<longrightarrow> update_defined (set_brightness COLOR_GREEN (of_nat k) d) c"
  shows "\<exists>tr. timer_run (rgbw_rb_hrtimer_callback h) n d = Inr tr \<and> length tr = n \<and>
     (\<forall>i<n. bstate (acts (tick_start d tr i)) = 0 \<and>
        brightness (props (tick_start d tr i) COLOR_RED) = 255 \<and>
        brightness (props (tick_start d tr i) COLOR_GREEN) = of_nat i \<and>
        brightness (props (tick_start d tr i) COLOR_BLUE) = 0 \<and>
        brightness (props (fst (tr ! i)) COLOR_RED) = 255 \<and>
        brightness (props (fst (tr ! i)) COLOR_GREEN) = of_nat (Suc i) \<and>
        brightness (props (fst (tr ! i)) COLOR_BLUE) = 0 \<and>
        bstate (acts (fst (tr ! i))) = (if Suc i = 255 then 1 else 0))"
proof -
  have mx: "max_brightness (props d COLOR_GREEN) = 255" using assms(3) by simp
  have g: "brightness (props d COLOR_GREEN) = of_nat 0" using assms(5) by simp
  have le: "0 + n \<le> 255" using assms(7) by simp
  from rb_run0 [OF assms(1,2) mx g le assms(8)] obtain tr where
    run: "timer_run (rgbw_rb_hrtimer_callback h) n d = Inr tr" and len: "length tr = n"
    and at0: "\<forall>i<n. same_setup d (fst (tr ! i)) \<and>
        brightness (props (fst (tr ! i)) COLOR_GREEN) = of_nat (Suc (0 + i)) \<and>
        (\<forall>c. c \<noteq> COLOR_GREEN \<longrightarrow> brightness (props (fst (tr ! i)) c) = brightness (props d c)) \<and>
        bstate (acts (fst (tr ! i))) = (if Suc (0 + i) = 255 then 1 else 0)"
    by blast
  have after: "brightness (props (fst (tr ! i)) COLOR_RED) = 255 \<and>
        brightness (props (fst (tr ! i)) COLOR_GREEN) = of_nat (Suc i) \<and>
        brightness (props (fst (tr ! i)) COLOR_BLUE) = 0 \<and>
        bstate (acts (fst (tr ! i))) = (if Suc i = 255 then 1 else 0)" if "i < n" for i
    using at0 that assms(4,6) by simp
  have before: "bstate (acts (tick_start d tr i)) = 0 \<and>
        brightness (props (tick_start d tr i) COLOR_RED) = 255 \<and>
        brightness (props (tick_start d tr i) COLOR_GREEN) = of_nat i \<and>
        brightness (props (tick_start d tr i) COLOR_BLUE) = 0" if "i < n" for i
  proof (cases i)
    case 0
    then show ?thesis
      using assms(2,4,5,6) by (simp add: tick_start_def)
  next
    case (Suc j)
    with that have j: "j < n" and ne: "Suc j \<noteq> 255" using assms(7) by simp_all
    from after [OF j] ne show ?thesis
      by (simp add: tick_start_def Suc)
  qed
  from run len after before show ?thesis
    by (intro exI [of _ tr]) simp
qed

theorem rainbow_state0_witness:
  "\<exists>tr. timer_run (rgbw_rb_hrtimer_callback rgbw_h0) 255 board_rb = Inr tr \<and> length tr = 255 \<and>
     brightness (props (tick_start board_rb tr 0) COLOR_GREEN) = 0 \<and>
     bstate (acts (tick_start board_rb tr 0)) = 0 \<and>
     brightness (props (fst (tr ! 0)) COLOR_GREEN) = 1 \<and>
     bstate (acts (fst (tr ! 0))) = 0 \<and>
     brightness (props (tick_start board_rb tr 254) COLOR_RED) = 255 \<and>
     brightness (props (tick_start board_rb tr 254) COLOR_GREEN) = 254 \<and>
     brightness (props (tick_start board_rb tr 254) COLOR_BLUE) = 0 \<and>
     bstate (acts (tick_start board_rb tr 254)) = 0 \<and>
     brightness (props (fst (tr ! 254)) COLOR_RED) = 255 \<and>
     bstate (acts (fst (tr ! 254))) = 1"
proof -
  have a: "state (acts board_rb) AND RGBW_RB_ON rgbw_h0 \<noteq> 0" and b: "bstate (acts board_rb) = 0"
    and mx: "\<forall>c. max_brightness (props board_rb c) = 255"
    and r: "brightness (props board_rb COLOR_RED) = 255"
    and g: "brightness (props board_rb COLOR_GREEN) = 0"
    and bl: "brightness (props board_rb COLOR_BLUE) = 0"
    by (simp_all add: board_rb_def board_def rgbw_h0_def)
  have df: "\<forall>k c. k \<le> 255 \<longrightarrow> update_defined (set_brightness COLOR_GREEN (of_nat k) board_rb) c"
    by (simp add: update_defined_def board_rb_def board_def notified_def)
  have le: "(255::nat) \<le> 255" by simp
  from rainbow_state0 [OF a b mx r g bl le df] obtain tr where
    run: "timer_run (rgbw_rb_hrtimer_callback rgbw_h0) 255 board_rb = Inr tr" and len: "length tr = 255"
    and at: "\<forall>i<255. bstate (acts (tick_start board_rb tr i)) = 0 \<and>
        brightness (props (tick_start board_rb tr i) COLOR_RED) = 255 \<and>
        brightness (props (tick_start board_rb tr i) COLOR_GREEN) = of_nat i \<and>
        brightness (props (tick_start board_rb tr i) COLOR_BLUE) = 0 \<and>
        brightness (props (fst (tr ! i)) COLOR_RED) = 255 \<and>
        brightness (props (fst (tr ! i)) COLOR_GREEN) = of_nat (Suc i) \<and>
        brightness (props (fst (tr ! i)) COLOR_BLUE) = 0 \<and>
        bstate (acts (fst (tr ! i))) = (if Suc i = 255 then 1 else 0)"
    by blast
  from at have "brightness (props (tick_start board_rb tr 0) COLOR_GREEN) = 0"
    "bstate (acts (tick_start board_rb tr 0)) = 0"
    "brightness (props (fst (tr ! 0)) COLOR_GREEN) = 1"
    "bstate (acts (fst (tr ! 0))) = 0"
    "brightness (props (tick_start board_rb tr 254) COLOR_RED) = 255"
    "brightness (props (tick_start board_rb tr 254) COLOR_GREEN) = 254"
    "brightness (props (tick_start board_rb tr 254) COLOR_BLUE) = 0"
    "bstate (acts (tick_start board_rb tr 254)) = 0"
    "brightness (props (fst (tr ! 254)) COLOR_RED) = 255"
    "bstate (acts (fst (tr ! 254))) = 1"
    by simp_all
  with run len show ?thesis by (intro exI [of _ tr] conjI)
qed


subsection \<open>The pulse\<close>

lemma sint_of_nat_small:
  assumes "k < 2 ^ 31"
  shows "sint (of_nat k :: u32) = int k"
proof -
  have "k < 2 ^ 32" using assms by simp
  then have u: "unat (of_nat k :: u32) = k" by (rule unat_of_nat_small)
  have "uint (of_nat k :: u32) = int (unat (of_nat k :: u32))" by (rule uint_nat)
  with u have ui: "uint (of_nat k :: u32) = int k" by (simp only:)
  have "int k < 2 ^ 31" using assms by (metis of_nat_less_iff of_nat_numeral of_nat_power)
  moreover have "- (2 ^ 31) \<le> int k"
  proof -
    have "(0::int) \<le> int k" by simp
    then have "- 2147483648 \<le> int k" by linarith
    then show ?thesis by simp
  qed
  ultimately have "signed_take_bit 31 (int k) = int k"
    by (rule signed_take_bit_int_eq_self [rotated])
  then show ?thesis by (simp add: sint_uint ui)
qed

lemma pulse_index_of_nat:
  assumes "k \<le> 80"
  shows "pulse_index (of_nat k) = of_nat (k mod 80)"
    and "pulse_val_at (of_nat (k mod 80)) = Inr (pulse_val_table ! (k mod 80))"
proof -
  have s: "sint (of_nat k :: u32) = int k"
    using assms by (intro sint_of_nat_small) simp
  show "pulse_index (of_nat k) = of_nat (k mod 80)"
  proof (cases "k = 80")
    case True
    then show ?thesis by (simp add: pulse_index_def pulse_val_size_eq)
  next
    case False
    with assms have "k < 80" by simp
    then show ?thesis by (simp add: pulse_index_def pulse_val_size_eq word_sle_eq s)
  qed
  have m: "k mod 80 < 80" by simp
  have s': "sint (of_nat (k mod 80) :: u32) = int (k mod 80)"
    using m by (intro sint_of_nat_small) simp
  have u': "unat (of_nat (k mod 80) :: u32) = k mod 80"
    using m by (intro unat_of_nat_small) simp
  show "pulse_val_at (of_nat (k mod 80)) = Inr (pulse_val_table ! (k mod 80))"
    using m by (simp add: pulse_val_at_def word_sle_eq s' u' length_pulse_val_table)
qed


lemma pulse_step:
  assumes act: "state (acts d) AND RGBW_PULSE_ON h \<noteq> 0"
    and pc: "color_at (pcolor (acts d)) = Some c"
    and k: "cntr (props d c) = of_nat k" "k \<le> 80"
    and def: "update_defined (set_brightness c (pulse_val_table ! (k mod 80)) d) c"
  shows "\<exists>d' as. rgbw_pulse_hrtimer_callback h d = Inr (HRTIMER_RESTART, d', as) \<and>
     same_setup d d' \<and>
     brightness (props d' c) = pulse_val_table ! (k mod 80) \<and>
     cntr (props d' c) = of_nat (Suc (k mod 80)) \<and>
     (\<forall>c'. c' \<noteq> c \<longrightarrow> props d' c' = props d c') \<and>
     last as = Hrtimer_forward (PULSE_VALUE_PER_NS h)"
proof -
  let ?v = "pulse_val_table ! (k mod 80)"
  let ?d1 = "d\<lparr>props := (props d)(c := (props d c)\<lparr>brightness := ?v, cntr := of_nat (k mod 80) + 1\<rparr>)\<rparr>"
  let ?pb = "rgbw_get_data d"
  have "update_defined ?d1 c = update_defined (set_brightness c ?v d) c"
    by (rule update_defined_cong) simp_all
  with def have "update_defined ?d1 c" by simp
  from pwm_update_defined [OF this] obtain ps where
    ps: "pwm_update ?pb c (notified ?pb ?v) (max_brightness (props d c)) = Inr ps"
    by auto
  let ?d2 = "?d1\<lparr>rgbw_get_data := fst (gpio_update ?pb c)\<rparr>"
  let ?as = "ps @ snd (gpio_update ?pb c) @ notify_after_actions ?pb [notified ?pb ?v]"
  have pu: "pulse_color_update ?d1 (pcolor (acts d)) = Inr (0, ?d2, ?as)"
    using ps by (simp add: pulse_color_update_channel [OF pc])
  have cb: "rgbw_pulse_hrtimer_callback h d
              = Inr (HRTIMER_RESTART, ?d2, ?as @ [Hrtimer_forward (PULSE_VALUE_PER_NS h)])"
    using act pc pu
    by (simp add: rgbw_pulse_hrtimer_callback_def Let_def k(1) pulse_index_of_nat [OF k(2)])
  have ss: "same_setup d ?d2"
    using gpio_update_config [of ?pb c] by (simp add: same_setup_def)
  have cn: "cntr (props ?d2 c) = of_nat (Suc (k mod 80))"
    by simp
  from cb ss cn show ?thesis
    by (intro exI [of _ ?d2] exI [of _ "?as @ [Hrtimer_forward (PULSE_VALUE_PER_NS h)]"]) simp
qed

lemma pulse_run:
  assumes "state (acts d) AND RGBW_PULSE_ON h \<noteq> 0"
    and "color_at (pcolor (acts d)) = Some c"
    and "cntr (props d c) = of_nat k" and "k \<le> 80"
    and "\<forall>j<80. update_defined (set_brightness c (pulse_val_table ! j) d) c"
  shows "\<exists>tr. timer_run (rgbw_pulse_hrtimer_callback h) n d = Inr tr \<and> length tr = n \<and>
     (\<forall>i<n. same_setup d (fst (tr ! i)) \<and>
        brightness (props (fst (tr ! i)) c) = pulse_val_table ! ((k + i) mod 80) \<and>
        cntr (props (fst (tr ! i)) c) = of_nat (Suc ((k + i) mod 80)) \<and>
        (\<forall>c'. c' \<noteq> c \<longrightarrow> props (fst (tr ! i)) c' = props d c'))"
  using assms
proof (induction n arbitrary: d k)
  case 0
  then show ?case by simp
next
  case (Suc n)
  let ?Q = "\<lambda>d k tr i. same_setup d (fst (tr ! i)) \<and>
        brightness (props (fst (tr ! i)) c) = pulse_val_table ! ((k + i) mod 80) \<and>
        cntr (props (fst (tr ! i)) c) = of_nat (Suc ((k + i) mod 80)) \<and>
        (\<forall>c'. c' \<noteq> c \<longrightarrow> props (fst (tr ! i)) c' = props d c')"
  have m: "k mod 80 < 80" by simp
  with Suc.prems(5) have "update_defined (set_brightness c (pulse_val_table ! (k mod 80)) d) c"
    by blast
  from pulse_step [OF Suc.prems(1,2,3,4) this] obtain d1 as1 where
    cb: "rgbw_pulse_hrtimer_callback h d = Inr (HRTIMER_RESTART, d1, as1)"
    and ss: "same_setup d d1"
    and b1: "brightness (props d1 c) = pulse_val_table ! (k mod 80)"
    and c1: "cntr (props d1 c) = of_nat (Suc (k mod 80))"
    and ot: "\<forall>c'. c' \<noteq> c \<longrightarrow> props d1 c' = props d c'"
    by blast
  have st1: "state (acts d1) AND RGBW_PULSE_ON h \<noteq> 0"
    and pc1: "color_at (pcolor (acts d1)) = Some c"
    using ss Suc.prems(1,2) by (simp_all add: same_setup_def)
  have k1: "Suc (k mod 80) \<le> 80" using m by simp
  have "update_defined (set_brightness c v d1) c = update_defined (set_brightness c v d) c" for v
    using ss by (intro update_defined_cong) (simp_all add: same_setup_def)
  with Suc.prems(5) have df1: "\<forall>j<80. update_defined (set_brightness c (pulse_val_table ! j) d1) c"
    by simp
  from Suc.IH [OF st1 pc1 c1 k1 df1] obtain tr where
    run: "timer_run (rgbw_pulse_hrtimer_callback h) n d1 = Inr tr" and len: "length tr = n"
    and rest: "\<forall>i<n. ?Q d1 (Suc (k mod 80)) tr i"
    by blast
  have md: "(Suc (k mod 80) + j) mod 80 = (k + Suc j) mod 80" for j
  proof -
    have "(k mod 80 + Suc j) mod 80 = (k + Suc j) mod 80"
      by (rule mod_add_left_eq)
    then show ?thesis by (simp only: add_Suc add_Suc_right)
  qed
  have "timer_run (rgbw_pulse_hrtimer_callback h) (Suc n) d = Inr ((d1, as1) # tr)"
    using cb run by simp
  moreover have "length ((d1, as1) # tr) = Suc n" using len by simp
  moreover have "?Q d k ((d1, as1) # tr) i" if "i < Suc n" for i
  proof (cases i)
    case 0
    then show ?thesis using ss b1 c1 ot by simp
  next
    case (Suc j)
    with that have "j < n" by simp
    with rest have r: "?Q d1 (Suc (k mod 80)) tr j" by simp
    have "same_setup d (fst (tr ! j))"
      using same_setup_trans [OF ss] r by blast
    moreover have "\<forall>c'. c' \<noteq> c \<longrightarrow> props (fst (tr ! j)) c' = props d c'"
      using r ot by simp
    moreover have "brightness (props (fst (tr ! j)) c) = pulse_val_table ! ((k + Suc j) mod 80)"
      "cntr (props (fst (tr ! j)) c) = of_nat (Suc ((k + Suc j) mod 80))"
      using r by (simp_all only: md)
    ultimately show ?thesis
      by (simp add: Suc)
  qed
  ultimately show ?case by blast
qed


lemma pulse_val_table_le: "\<forall>v\<in>set pulse_val_table. v \<le> 254"
  by (simp add: pulse_val_table_def)

text \<open>
  C4 (as amended). The pulse table is a fixed sequence of exactly 80 brightness values in
  0..254. While the pulse is active on a channel whose counter starts at 0, the i-th
  firing of the callback (i = 0, 1, 2, ...) writes the table's entry i mod 80 to that
  channel's brightness and leaves the counter at (i mod 80) + 1: the index advances by
  one per tick and wraps to 0 after index 79, so the brightness sequence repeats with
  period 80. No other channel's brightness changes. The run never faults when the update
  of the channel is defined for every value of the table.
\<close>

theorem pulse_sequence:
  assumes "state (acts d) AND RGBW_PULSE_ON h \<noteq> 0"
    and "color_at (pcolor (acts d)) = Some c"
    and "cntr (props d c) = 0"
    and "\<forall>j<80. update_defined (set_brightness c (pulse_val_table ! j) d) c"
  shows "length pulse_val_table = 80 \<and> (\<forall>v\<in>set pulse_val_table. v \<le> 254) \<and>
     (\<exists>tr. timer_run (rgbw_pulse_hrtimer_callback h) n d = Inr tr \<and> length tr = n \<and>
        (\<forall>i<n. brightness (props (fst (tr ! i)) c) = pulse_val_table ! (i mod 80) \<and>
           cntr (props (fst (tr ! i)) c) = of_nat (Suc (i mod 80)) \<and>
           (\<forall>c'. c' \<noteq> c \<longrightarrow> brightness (props (fst (tr ! i)) c') = brightness (props d c'))))"
proof -
  have k: "cntr (props d c) = of_nat 0" using assms(3) by simp
  have le: "(0::nat) \<le> 80" by simp
  from pulse_run [OF assms(1,2) k le assms(4), of n] obtain tr where
    "timer_run (rgbw_pulse_hrtimer_callback h) n d = Inr tr" "length tr = n"
    "\<forall>i<n. same_setup d (fst (tr ! i)) \<and>
        brightness (props (fst (tr ! i)) c) = pulse_val_table ! ((0 + i) mod 80) \<and>
        cntr (props (fst (tr ! i)) c) = of_nat (Suc ((0 + i) mod 80)) \<and>
        (\<forall>c'. c' \<noteq> c \<longrightarrow> props (fst (tr ! i)) c' = props d c')"
    by blast
  then have "\<exists>tr. timer_run (rgbw_pulse_hrtimer_callback h) n d = Inr tr \<and> length tr = n \<and>
        (\<forall>i<n. brightness (props (fst (tr ! i)) c) = pulse_val_table ! (i mod 80) \<and>
           cntr (props (fst (tr ! i)) c) = of_nat (Suc (i mod 80)) \<and>
           (\<forall>c'. c' \<noteq> c \<longrightarrow> brightness (props (fst (tr ! i)) c') = brightness (props d c')))"
    by (intro exI [of _ tr]) simp
  with length_pulse_val_table pulse_val_table_le show ?thesis by blast
qed

lemma board_pulse_hyps:
  "state (acts (set_state 1 board)) AND RGBW_PULSE_ON rgbw_h0 \<noteq> 0"
  "color_at (pcolor (acts (set_state 1 board))) = Some COLOR_RED"
  "cntr (props (set_state 1 board) COLOR_RED) = 0"
  "\<forall>j<80. update_defined (set_brightness COLOR_RED (pulse_val_table ! j) (set_state 1 board)) COLOR_RED"
  by (simp_all add: set_state_def board_def rgbw_h0_def color_at_def update_defined_def notified_def)

lemma pulse_val_table_nth:
  "pulse_val_table ! 5 = 6" "pulse_val_table ! 74 = 2" "pulse_val_table ! 75 = 1" "pulse_val_table ! 0 = 0"
  by (simp_all add: pulse_val_table_def)

theorem pulse_sequence_witness:
  "\<exists>tr. timer_run (rgbw_pulse_hrtimer_callback rgbw_h0) 86 (set_state 1 board) = Inr tr \<and>
     length tr = 86 \<and>
     brightness (props (fst (tr ! 5)) COLOR_RED) = 6 \<and>
     brightness (props (fst (tr ! 75)) COLOR_RED) = 1 \<and>
     brightness (props (fst (tr ! 85)) COLOR_RED) = 6 \<and>
     brightness (props (fst (tr ! 85)) COLOR_GREEN) = 0"
proof -
  from pulse_sequence [OF board_pulse_hyps, of 86] obtain tr where
    run: "timer_run (rgbw_pulse_hrtimer_callback rgbw_h0) 86 (set_state 1 board) = Inr tr"
    and len: "length tr = 86"
    and at: "\<forall>i<86. brightness (props (fst (tr ! i)) COLOR_RED) = pulse_val_table ! (i mod 80) \<and>
           cntr (props (fst (tr ! i)) COLOR_RED) = of_nat (Suc (i mod 80)) \<and>
           (\<forall>c'. c' \<noteq> COLOR_RED \<longrightarrow>
              brightness (props (fst (tr ! i)) c') = brightness (props (set_state 1 board) c'))"
    by blast
  from at have "brightness (props (fst (tr ! 5)) COLOR_RED) = 6"
    "brightness (props (fst (tr ! 75)) COLOR_RED) = 1"
    "brightness (props (fst (tr ! 85)) COLOR_RED) = 6"
    "brightness (props (fst (tr ! 85)) COLOR_GREEN) = 0"
    by (simp_all add: pulse_val_table_nth set_state_def board_def)
  with run len show ?thesis by (intro exI [of _ tr] conjI)
qed

text \<open>
  The table has 80 entries, not 75, and the index does not wrap after 74: the firing
  after the one that read index 74 (value 2) reads index 75 (value 1), not index 0.
\<close>

theorem pulse_sequence_counterexample:
  "length pulse_val_table = 80 \<and> pulse_index 75 = 75 \<and>
   pulse_val_table ! 75 = 1 \<and> pulse_val_table ! 0 = 0 \<and>
   length (run_states (rgbw_pulse_hrtimer_callback rgbw_h0) 76 (set_state 1 board)) = 76 \<and>
   brightness (props (run_states (rgbw_pulse_hrtimer_callback rgbw_h0) 76 (set_state 1 board) ! 74)
     COLOR_RED) = 2 \<and>
   brightness (props (run_states (rgbw_pulse_hrtimer_callback rgbw_h0) 76 (set_state 1 board) ! 75)
     COLOR_RED) = 1"
proof -
  have k: "cntr (props (set_state 1 board) COLOR_RED) = of_nat 0"
    using board_pulse_hyps(3) by simp
  have le: "(0::nat) \<le> 80" by simp
  from pulse_run [OF board_pulse_hyps(1,2) k le board_pulse_hyps(4), of 76] obtain tr where
    run: "timer_run (rgbw_pulse_hrtimer_callback rgbw_h0) 76 (set_state 1 board) = Inr tr"
    and len: "length tr = 76"
    and at: "\<forall>i<76. same_setup (set_state 1 board) (fst (tr ! i)) \<and>
        brightness (props (fst (tr ! i)) COLOR_RED) = pulse_val_table ! ((0 + i) mod 80) \<and>
        cntr (props (fst (tr ! i)) COLOR_RED) = of_nat (Suc ((0 + i) mod 80)) \<and>
        (\<forall>c'. c' \<noteq> COLOR_RED \<longrightarrow> props (fst (tr ! i)) c' = props (set_state 1 board) c')"
    by blast
  have rs: "run_states (rgbw_pulse_hrtimer_callback rgbw_h0) 76 (set_state 1 board) = map fst tr"
    using run by (simp add: run_states_def)
  from at have "brightness (props (fst (tr ! 74)) COLOR_RED) = 2"
    "brightness (props (fst (tr ! 75)) COLOR_RED) = 1"
    by (simp_all add: pulse_val_table_nth)
  moreover have "pulse_index 75 = 75"
    by (simp add: pulse_index_def pulse_val_size_eq word_sle_eq)
  ultimately show ?thesis
    using len by (simp add: rs length_pulse_val_table pulse_val_table_nth)
qed


section \<open>The brightness invariant\<close>

lemma board_3levels_white_hyps:
  "state (acts (set_state 1 (set_pcolor 3 board_3levels))) AND RGBW_PULSE_ON rgbw_h0 \<noteq> 0"
  "color_at (pcolor (acts (set_state 1 (set_pcolor 3 board_3levels)))) = Some COLOR_WHITE"
  "cntr (props (set_state 1 (set_pcolor 3 board_3levels)) COLOR_WHITE) = of_nat 0"
  "\<forall>j<80. update_defined
     (set_brightness COLOR_WHITE (pulse_val_table ! j) (set_state 1 (set_pcolor 3 board_3levels)))
     COLOR_WHITE"
  by (simp_all add: set_state_def set_pcolor_def board_3levels_def rgbw_h0_def color_at_def
      update_defined_def notified_def set_brightness_def)

lemma board_3levels_red_run:
  "timer_run (rgbw_pulse_hrtimer_callback rgbw_h0) (Suc (Suc (Suc (Suc 0))))
     (set_state 1 (set_pcolor 0 board_3levels)) = Inl (OUT_OF_BOUNDS ARR_LEVELS)"
  by (simp add: rgbw_pulse_hrtimer_callback_def set_state_def set_pcolor_def board_3levels_def
      rgbw_h0_def color_at_def pulse_index_def pulse_val_size_def pulse_val_at_def
      pulse_val_table_def pulse_color_update_def channel_update_def pwm_update_def
      gpio_update_def duty_cycle_of_def level_of_def notified_def notify_after_actions_def
      MAX_COLORS_def word_sle_eq Let_def)

text \<open>
  C3. The pulse callback writes the entries of its table, which go up to 254, to the
  brightness of the pulsed channel whatever the max_brightness of that channel is. For
  \<open>brightness-levels = <0 128 255>\<close> the probe registers a device whose channels
  have max_brightness 2, and on it every channel is within its maximum. With the pulse
  on white, a software PWM, the fourth firing writes the table's entry 3: white is at
  brightness 3 with max_brightness 2. With the pulse on red, a hardware PWM, the fourth
  firing goes on to read \<open>levels[3]\<close>, outside the table of three levels.
\<close>

theorem pulse_exceeds_max_brightness:
  "rgbw_dt_probe (pdev_with_levels [0, 128, 255]) = Inr (0, Some board_3levels) \<and>
   brightness_bounded (set_state 1 (set_pcolor 3 board_3levels)) \<and>
   length (run_states (rgbw_pulse_hrtimer_callback rgbw_h0) 4
             (set_state 1 (set_pcolor 3 board_3levels))) = 4 \<and>
   brightness (props (run_states (rgbw_pulse_hrtimer_callback rgbw_h0) 4
                        (set_state 1 (set_pcolor 3 board_3levels)) ! 3) COLOR_WHITE) = 3 \<and>
   max_brightness (props (run_states (rgbw_pulse_hrtimer_callback rgbw_h0) 4
                            (set_state 1 (set_pcolor 3 board_3levels)) ! 3) COLOR_WHITE) = 2 \<and>
   \<not> brightness_bounded (run_states (rgbw_pulse_hrtimer_callback rgbw_h0) 4
                            (set_state 1 (set_pcolor 3 board_3levels)) ! 3) \<and>
   brightness_bounded (set_state 1 (set_pcolor 0 board_3levels)) \<and>
   timer_run (rgbw_pulse_hrtimer_callback rgbw_h0) 4 (set_state 1 (set_pcolor 0 board_3levels))
     = Inl (OUT_OF_BOUNDS ARR_LEVELS)"
proof -
  let ?w = "set_state 1 (set_pcolor 3 board_3levels)"
  have probe: "rgbw_dt_probe (pdev_with_levels [0, 128, 255]) = Inr (0, Some board_3levels)"
    by (simp add: pdev_with_levels_def rgbw_parse_dt_def rgbw_dt_validation_def count_of_def
        rgbw_dt_probe_def probe_max_def build_device_def board_3levels_def
        colors_def EINVAL_def ENODATA_def)
  have b0: "brightness_bounded ?w" "brightness_bounded (set_state 1 (set_pcolor 0 board_3levels))"
    by (simp_all add: brightness_bounded_def set_state_def set_pcolor_def board_3levels_def)
  have le: "(0::nat) \<le> 80" by simp
  from pulse_run [OF board_3levels_white_hyps(1,2,3) le board_3levels_white_hyps(4), of 4]
  obtain tr where
    run: "timer_run (rgbw_pulse_hrtimer_callback rgbw_h0) 4 ?w = Inr tr"
    and len: "length tr = 4"
    and at: "\<forall>i<4. same_setup ?w (fst (tr ! i)) \<and>
        brightness (props (fst (tr ! i)) COLOR_WHITE) = pulse_val_table ! ((0 + i) mod 80) \<and>
        cntr (props (fst (tr ! i)) COLOR_WHITE) = of_nat (Suc ((0 + i) mod 80)) \<and>
        (\<forall>c'. c' \<noteq> COLOR_WHITE \<longrightarrow> props (fst (tr ! i)) c' = props ?w c')"
    by blast
  have rs: "run_states (rgbw_pulse_hrtimer_callback rgbw_h0) 4 ?w = map fst tr"
    using run by (simp add: run_states_def)
  have t3: "pulse_val_table ! 3 = 3"
    by (simp add: pulse_val_table_def)
  from at have s: "same_setup ?w (fst (tr ! 3))"
    and b: "brightness (props (fst (tr ! 3)) COLOR_WHITE) = 3"
    by (simp_all add: t3)
  from s have m: "max_brightness (props (fst (tr ! 3)) COLOR_WHITE) = 2"
    by (simp add: same_setup_def set_state_def set_pcolor_def board_3levels_def)
  have "\<not> brightness (props (fst (tr ! 3)) COLOR_WHITE)
            \<le> max_brightness (props (fst (tr ! 3)) COLOR_WHITE)"
    by (simp add: b m)
  then have n: "\<not> brightness_bounded (fst (tr ! 3))"
    unfolding brightness_bounded_def by blast
  have e: "run_states (rgbw_pulse_hrtimer_callback rgbw_h0) 4 ?w ! 3 = fst (tr ! 3)"
    using len by (simp add: rs)
  have l: "length (run_states (rgbw_pulse_hrtimer_callback rgbw_h0) 4 ?w) = 4"
    using len by (simp add: rs)
  have four: "(4::nat) = Suc (Suc (Suc (Suc 0)))" by simp
  have red: "timer_run (rgbw_pulse_hrtimer_callback rgbw_h0) 4 (set_state 1 (set_pcolor 0 board_3levels))
     = Inl (OUT_OF_BOUNDS ARR_LEVELS)"
    unfolding four by (rule board_3levels_red_run)
  show ?thesis
    unfolding e using probe b0 l b m n red by (intro conjI)
qed

section \<open>Initialisation with a zero maximum\<close>

text \<open>
  C7. The claim asks that a configuration with a zero max_brightness be rejected with an
  error before any division. The probe has no such test. An empty
  \<open>brightness-levels\<close> property passes \<open>rgbw_parse_dt\<close> with max_brightness 0 and
  no table and passes the validation, and the probe then divides the period by 0; a
  property with the single cell 0 does the same through the table. A property with the
  single cell 255 gives max_brightness 0 as well, and the probe returns 0 with a device
  whose channels have max_brightness 0.
\<close>

theorem probe_zero_max_brightness:
  "rgbw_parse_dt (of_node (pdev_with_levels [])) =
     Inr \<lparr>pd_max_brightness = 0, pd_levels = None, pd_init = None, pd_notify = None,
          pd_notify_after = False\<rparr> \<and>
   rgbw_dt_validation (of_node (pdev_with_levels [])) = 0 \<and>
   rgbw_dt_probe (pdev_with_levels []) = Inl DIVIDE_BY_ZERO \<and>
   rgbw_dt_probe (pdev_with_levels [0]) = Inl DIVIDE_BY_ZERO \<and>
   probe_return (pdev_with_levels [255]) = Some 0 \<and>
   probed_max_brightness (pdev_with_levels [255]) COLOR_RED = Some 0"
  by (simp add: pdev_with_levels_def rgbw_parse_dt_def rgbw_dt_validation_def count_of_def
      rgbw_dt_probe_def probe_max_def probed_max_brightness_def probe_return_def
      build_device_def colors_def EINVAL_def ENODATA_def)

end
